theory Spec2Isabelle
  imports Main
begin

section \<open>RPA.Desktop.Windows: a shallow embedding\<close>

text \<open>
  The module \<^verbatim>\<open>src/RPA/Desktop/Windows.py\<close> keeps a registry of application sessions,
  parses locator strings, filters element snapshots of the current window, and issues
  mouse clicks through the pywinauto backend. Python strings are \<open>string\<close> (characters are
  code points below 256), Python integers are \<open>int\<close>, dictionaries are maps, \<open>None\<close>-able
  values are \<open>option\<close>s, and every exception the Python code of this file can raise is a
  value of \<open>exn\<close>.
\<close>

subsection \<open>Exceptions\<close>

datatype exn =
    ValueError string
  | KeyError
  | AttributeError
  | TypeError
  | OverflowError
  | FileExistsError
  | OSError
  | RuntimeError
  | NotImplementedError
  | RecursionError

text \<open>
  \<open>isinstance(e, RuntimeError)\<close>: in Python's built-in hierarchy \<open>NotImplementedError\<close> and
  \<open>RecursionError\<close> derive from \<open>RuntimeError\<close>; the other classes above do not.
\<close>

fun is_RuntimeError :: "exn \<Rightarrow> bool" where
  "is_RuntimeError RuntimeError = True"
| "is_RuntimeError NotImplementedError = True"
| "is_RuntimeError RecursionError = True"
| "is_RuntimeError _ = False"

subsection \<open>Strings: \<open>startswith\<close>, \<open>split\<close>, \<open>join\<close>\<close>

definition startswith :: "string \<Rightarrow> string \<Rightarrow> bool" where
  "startswith s p = (take (length p) s = p)"

text \<open>
  \<open>s.split(sep)\<close> for a non-empty separator: scan from the left; at every position where
  \<open>sep\<close> begins, close the current piece and continue after the separator (occurrences do
  not overlap). \<open>cur\<close> is the piece collected so far.
\<close>

function py_split_acc :: "string \<Rightarrow> string \<Rightarrow> string \<Rightarrow> string list" where
  "py_split_acc sep cur [] = [cur]"
| "py_split_acc sep cur (c # cs) =
     (if sep \<noteq> [] \<and> startswith (c # cs) sep
      then cur # py_split_acc sep [] (drop (length sep) (c # cs))
      else py_split_acc sep (cur @ [c]) cs)"
  by pat_completeness auto
termination
  by (relation "measure (\<lambda>(sep, cur, s). length s)") auto

definition py_split :: "string \<Rightarrow> string \<Rightarrow> string list" where
  "py_split s sep = py_split_acc sep [] s"

text \<open>\<open>"".join(parts)\<close>\<close>

definition join_empty :: "string list \<Rightarrow> string" where
  "join_empty parts = concat parts"

text \<open>\<open>parts[1:]\<close>: a slice never raises; on the empty list it is the empty list.\<close>

definition slice_from_1 :: "'a list \<Rightarrow> 'a list" where
  "slice_from_1 xs = drop 1 xs"

subsection \<open>Locator parsing\<close>

text \<open>
  \<^verbatim>\<open>
  search_criteria = "any"
  if locator.startswith("name:"):
      search_criteria = "name"
      locator = "".join(locator.split("name:")[1:])
  elif locator.startswith("class:"): ...  "class_name"
  elif locator.startswith("type:"):  ...  "control_type"
  elif locator.startswith("id:"):    ...  "automation_id"
  return search_criteria, locator
  \<close>
\<close>

definition determine_search_criteria :: "string \<Rightarrow> string \<times> string" where
  "determine_search_criteria locator =
     (if startswith locator ''name:''
        then (''name'', join_empty (slice_from_1 (py_split locator ''name:'')))
      else if startswith locator ''class:''
        then (''class_name'', join_empty (slice_from_1 (py_split locator ''class:'')))
      else if startswith locator ''type:''
        then (''control_type'', join_empty (slice_from_1 (py_split locator ''type:'')))
      else if startswith locator ''id:''
        then (''automation_id'', join_empty (slice_from_1 (py_split locator ''id:'')))
      else (''any'', locator))"

subsection \<open>Element snapshots and matching\<close>

type_synonym snapshot = "string \<rightharpoonup> string"

text \<open>
  \<^verbatim>\<open>
  if criteria != "any" and criteria in itemdict and itemdict[criteria] == locator:
      return True
  elif criteria == "any":
      name_search = self.is_element_matching(itemdict, locator, "name")
      class_search = self.is_element_matching(itemdict, locator, "class_name")
      type_search = self.is_element_matching(itemdict, locator, "control_type")
      id_search = self.is_element_matching(itemdict, locator, "automation_id")
      if name_search or class_search or type_search or id_search:
          return True
  return False
  \<close>
\<close>

function is_element_matching :: "snapshot \<Rightarrow> string \<Rightarrow> string \<Rightarrow> bool" where
  "is_element_matching itemdict locator criteria =
     (if criteria \<noteq> ''any'' \<and> itemdict criteria \<noteq> None \<and> itemdict criteria = Some locator
      then True
      else if criteria = ''any'' then
        (let name_search = is_element_matching itemdict locator ''name'';
             class_search = is_element_matching itemdict locator ''class_name'';
             type_search = is_element_matching itemdict locator ''control_type'';
             id_search = is_element_matching itemdict locator ''automation_id''
         in if name_search \<or> class_search \<or> type_search \<or> id_search then True else False)
      else False)"
  by pat_completeness auto
termination
  by (relation "measure (\<lambda>(itemdict, locator, criteria). if criteria = ''any'' then 1 else 0)")
     auto

declare is_element_matching.simps [simp del]

subsection \<open>Rectangle strings\<close>

text \<open>
  \<open>\d\<close> on code points below 256 is exactly the ten ASCII digits; \<open>int\<close> of a string of
  digits is its decimal value (leading zeros allowed).
\<close>

definition is_digit :: "char \<Rightarrow> bool" where
  "is_digit c = (48 \<le> (of_char c :: int) \<and> (of_char c :: int) \<le> 57)"

definition int_of_digits :: "string \<Rightarrow> int" where
  "int_of_digits ds = foldl (\<lambda>acc c. 10 * acc + (of_char c - 48)) 0 ds"

text \<open>
  A greedy \<open>.*\<close> followed by the rest of the pattern \<open>k\<close>: the star first takes one more
  character (any character but a newline) and the match goes on from there; only when
  that fails is the rest of the pattern tried at the current position. So the rest of the
  pattern matches at the last position where it can.
\<close>

fun greedy_any :: "(string \<Rightarrow> 'a option) \<Rightarrow> string \<Rightarrow> 'a option" where
  "greedy_any k [] = k []"
| "greedy_any k (c # cs) =
     (if c = CHR 0x0A then k (c # cs)
      else (case greedy_any k cs of Some r \<Rightarrow> Some r | None \<Rightarrow> k (c # cs)))"

text \<open>
  A letter followed by the group \<open>(\d+)\<close>, then the rest of the pattern \<open>k\<close> on the
  captured digits and the remaining input. The group takes every digit there is: in this
  pattern a group is followed by \<open>.*\<close> or by a closing parenthesis, and giving a digit
  back can turn a failing match into a matching one in neither case.
\<close>

definition tagged_digits :: "char \<Rightarrow> (string \<Rightarrow> string \<Rightarrow> 'a option) \<Rightarrow> string \<Rightarrow> 'a option" where
  "tagged_digits tag k s =
     (case s of
        [] \<Rightarrow> None
      | c # cs \<Rightarrow>
          if c = tag \<and> takeWhile is_digit cs \<noteq> []
          then k (takeWhile is_digit cs) (dropWhile is_digit cs)
          else None)"

text \<open>
  \<^verbatim>\<open>re.match(r"\(L(\d+).*T(\d+).*R(\d+).*B(\d+)\)", rectangle)\<close>: anchored at the start
  of the string, not at its end; the result is the four captured groups, or \<open>None\<close>.
\<close>

definition match_rectangle :: "string \<Rightarrow> (string \<times> string \<times> string \<times> string) option" where
  "match_rectangle rectangle =
     (case rectangle of
        [] \<Rightarrow> None
      | c # cs \<Rightarrow>
          if c = CHR ''(''
          then tagged_digits CHR ''L'' (\<lambda>l. greedy_any
                (tagged_digits CHR ''T'' (\<lambda>t. greedy_any
                  (tagged_digits CHR ''R'' (\<lambda>r. greedy_any
                    (tagged_digits CHR ''B'' (\<lambda>b rest.
                       case rest of
                         [] \<Rightarrow> None
                       | d # _ \<Rightarrow> if d = CHR '')'' then Some (l, t, r, b) else None))))))) cs
          else None)"

text \<open>
  \<^verbatim>\<open>
  left, top, right, bottom = map(int, re.match(...).groups())
  return left, top, right, bottom
  \<close>
  When the pattern does not match, \<open>re.match\<close> returns \<open>None\<close> and \<open>.groups()\<close> raises
  \<open>AttributeError\<close>.
\<close>

definition get_element_coordinates :: "string \<Rightarrow> exn + (int \<times> int \<times> int \<times> int)" where
  "get_element_coordinates rectangle =
     (case match_rectangle rectangle of
        None \<Rightarrow> Inl AttributeError
      | Some (l, t, r, b) \<Rightarrow>
          Inr (int_of_digits l, int_of_digits t, int_of_digits r, int_of_digits b))"

subsection \<open>The center of an element\<close>

text \<open>
  \<open>int(n / 2)\<close> for an integer \<open>n\<close>. The division is Python's true division: its result
  is the double nearest to the quotient (ties to the even significand), and
  \<open>OverflowError\<close> when that is beyond the doubles; \<open>int\<close> then drops the fraction,
  towards zero. \<open>float_round a\<close> is \<open>a\<close> rounded to 53 significant bits; halving a double
  changes its exponent only.
\<close>

function bit_length :: "int \<Rightarrow> nat" where
  "bit_length n = (if n \<le> 0 then 0 else Suc (bit_length (n div 2)))"
  by pat_completeness auto
termination
  by (relation "measure nat") auto

declare bit_length.simps [simp del]

definition float_round :: "int \<Rightarrow> int" where
  "float_round a =
     (let b = bit_length a in
      if b \<le> 53 then a
      else
        let k = b - 53;
            q = a div 2 ^ k;
            r = a mod 2 ^ k;
            h = 2 ^ (k - 1);
            m = (if h < r \<or> (r = h \<and> odd q) then q + 1 else q)
        in m * 2 ^ k)"

definition int_half :: "int \<Rightarrow> exn + int" where
  "int_half n =
     (let h = float_round \<bar>n\<bar> div 2 in
      if 2 ^ 1024 \<le> h then Inl OverflowError
      else Inr (if n < 0 then - h else h))"

text \<open>
  \<^verbatim>\<open>
  left, top, right, bottom = self.get_element_coordinates(itemdict["rectangle"])
  x = int((right - left) / 2) + left
  y = int((bottom - top) / 2) + top
  return x, y
  \<close>
\<close>

definition get_element_center :: "snapshot \<Rightarrow> exn + (int \<times> int)" where
  "get_element_center itemdict =
     (case itemdict ''rectangle'' of
        None \<Rightarrow> Inl KeyError
      | Some rectangle \<Rightarrow>
          (case get_element_coordinates rectangle of
             Inl e \<Rightarrow> Inl e
           | Inr (left, top', right, bottom) \<Rightarrow>
               (case int_half (right - left) of
                  Inl e \<Rightarrow> Inl e
                | Inr hx \<Rightarrow>
                    (case int_half (bottom - top') of
                       Inl e \<Rightarrow> Inl e
                     | Inr hy \<Rightarrow> Inr (hx + left, hy + top')))))"

subsection \<open>The backend and the state of a \<open>Windows\<close> object\<close>

text \<open>
  The pywinauto backend is outside this file. Its objects are values: an application
  object records how it was obtained, a window is what \<open>Desktop(backend="uia")[title]\<close>
  resolves to (its handle and the attribute snapshots of the window and its
  descendants, in tree order). The backend calls that act on an application, a window,
  the mouse, the keyboard, the screen or the clipboard are recorded, in order, in the
  \<open>trace\<close> of the state; obtaining an application object or a window is not. Backend
  calls are taken to return normally: an exception raised inside the backend is not an
  exception of this file. \<open>delay\<close> only sleeps and logging only formats; neither is
  recorded, except for the one log entry of the destructor.
\<close>

datatype app_obj = Dispatched string | Started string | Connected int

record window =
  w_handle :: int
  w_elements :: "snapshot list"

type_synonym desktop = "string option \<Rightarrow> window"

datatype event =
    Quit_call app_obj
  | Kill_call app_obj
  | Mouse_click int int
  | Mouse_double_click int int
  | Mouse_right_click int int
  | Send_keys string
  | Type_keys string
  | Load_keyboard_layout
  | Dlg_wait
  | Dlg_minimize
  | Dlg_restore
  | Dlg_draw_outline
  | Menu_select string
  | Take_screenshot "int \<times> int \<times> int \<times> int"
  | Clear_clipboard

datatype log_entry = Debug_failed_to_clear_clipboard exn

text \<open>
  A session is the dictionary stored in \<open>self._apps\<close>. The keys \<open>app\<close>, \<open>id\<close> and
  \<open>dispatched\<close> are always there; \<open>executable\<close>, \<open>windowtitle\<close> and \<open>dlg\<close> may be
  absent (\<open>None\<close> below is the absent key). Window titles and executables are strings,
  as the docstrings say.
\<close>

record session =
  s_app :: "app_obj option"
  s_id :: int
  s_dispatched :: bool
  s_executable :: "string option"
  s_windowtitle :: "string option"
  s_dlg :: "window option"

text \<open>
  The \<open>params\<close> dictionary of \<open>_add_app_instance\<close>, with the keys its callers in this
  file pass.
\<close>

record params =
  p_dispatched :: "bool option"
  p_executable :: "string option"
  p_windowtitle :: "string option"

record state =
  apps :: "int \<rightharpoonup> session"
  app_instance_id :: int
  active_app_instance :: int
  app :: "app_obj option"
  dlg :: "window option"
  windowtitle :: "string option"
  images_dir_exists :: bool
  trace :: "event list"
  log :: "log_entry list"

text \<open>
  \<open>__init__\<close>. Whether the directory \<open><output dir>/images\<close> exists is a fact of the file
  system the object finds.
\<close>

definition init_state :: "bool \<Rightarrow> state" where
  "init_state images =
     \<lparr>apps = Map.empty, app_instance_id = 0, active_app_instance = - 1, app = None,
      dlg = None, windowtitle = None, images_dir_exists = images, trace = [], log = []\<rparr>"

definition call_backend :: "event \<Rightarrow> state \<Rightarrow> state" where
  "call_backend ev s = s\<lparr>trace := trace s @ [ev]\<rparr>"

text \<open>Truthiness of a string or \<open>None\<close>, and of an integer or \<open>None\<close>.\<close>

fun truthy_str :: "string option \<Rightarrow> bool" where
  "truthy_str None = False"
| "truthy_str (Some v) = (v \<noteq> [])"

fun truthy_int :: "int option \<Rightarrow> bool" where
  "truthy_int None = False"
| "truthy_int (Some v) = (v \<noteq> 0)"

subsection \<open>The destructor\<close>

text \<open>
  \<^verbatim>\<open>
  try:
      self.clipboard.clear_clipboard()
  except RuntimeError as err:
      self.logger.debug("Failed to clear clipboard: %s", err)
  \<close>
  The clipboard helper is not part of this file; \<open>raised\<close> is what its call does:
  \<open>None\<close> when it returns, \<open>Some e\<close> when it raises \<open>e\<close>. The result is the exception
  that leaves \<open>__del__\<close>, if any.
\<close>

definition dunder_del :: "exn option \<Rightarrow> state \<Rightarrow> exn option \<times> state" where
  "dunder_del raised s =
     (let s1 = call_backend Clear_clipboard s in
      case raised of
        None \<Rightarrow> (None, s1)
      | Some err \<Rightarrow>
          if is_RuntimeError err
          then (None, s1\<lparr>log := log s1 @ [Debug_failed_to_clear_clipboard err]\<rparr>)
          else (Some err, s1))"

subsection \<open>Decimal numerals\<close>

text \<open>\<open>str(n)\<close> for an integer, as the f-string of an error message renders it.\<close>

function str_nat :: "int \<Rightarrow> string" where
  "str_nat n = (if n < 10 then [char_of (48 + n)] else str_nat (n div 10) @ [char_of (48 + n mod 10)])"
  by pat_completeness auto
termination
  by (relation "measure nat") auto

declare str_nat.simps [simp del]

definition str_int :: "int \<Rightarrow> string" where
  "str_int n = (if n < 0 then CHR ''-'' # str_nat (- n) else str_nat n)"

fun str_int_option :: "int option \<Rightarrow> string" where
  "str_int_option None = ''None''"
| "str_int_option (Some n) = str_int n"

subsection \<open>Windows: open, connect, minimize, restore\<close>

text \<open>
  \<^verbatim>\<open>
  self.app = pywinauto.Application(backend="uia").connect(handle=handle, visible_only=False)
  self._apps[self._active_app_instance]["app"] = self.app
  \<close>
\<close>

definition connect_by_handle :: "int \<Rightarrow> state \<Rightarrow> (exn + unit) \<times> state" where
  "connect_by_handle handle s =
     (let s1 = s\<lparr>app := Some (Connected handle)\<rparr> in
      case apps s1 (active_app_instance s1) of
        None \<Rightarrow> (Inl KeyError, s1)
      | Some entry \<Rightarrow>
          (Inr (), s1\<lparr>apps := (apps s1)(active_app_instance s1 \<mapsto> entry\<lparr>s_app := app s1\<rparr>)\<rparr>))"

text \<open>
  \<^verbatim>\<open>
  if windowtitle:
      self.windowtitle = windowtitle
  else:
      windowtitle = self.windowtitle
  self.dlg = pywinauto.Desktop(backend="uia")[windowtitle]
  self._apps[self._active_app_instance]["dlg"] = self.dlg
  if self._apps[self._active_app_instance]["app"] is None:
      self.connect_by_handle(self.dlg.handle)
  if highlight:
      self.dlg.draw_outline()
  \<close>
\<close>

definition open_dialog :: "desktop \<Rightarrow> string option \<Rightarrow> bool \<Rightarrow> state \<Rightarrow> (exn + unit) \<times> state" where
  "open_dialog desk title highlight s =
     (let s1 = (if truthy_str title then s\<lparr>windowtitle := title\<rparr> else s);
          title1 = (if truthy_str title then title else windowtitle s);
          d = desk title1;
          s2 = s1\<lparr>dlg := Some d\<rparr>
      in case apps s2 (active_app_instance s2) of
           None \<Rightarrow> (Inl KeyError, s2)
         | Some entry \<Rightarrow>
             (let s3 = s2\<lparr>apps := (apps s2)(active_app_instance s2 \<mapsto> entry\<lparr>s_dlg := Some d\<rparr>)\<rparr>
              in case (if s_app entry = None then connect_by_handle (w_handle d) s3
                       else (Inr (), s3)) of
                   (Inl e, s4) \<Rightarrow> (Inl e, s4)
                 | (Inr u, s4) \<Rightarrow>
                     (Inr (), if highlight then call_backend Dlg_draw_outline s4 else s4)))"

definition minimize_dialog :: "desktop \<Rightarrow> string \<Rightarrow> state \<Rightarrow> (exn + unit) \<times> state" where
  "minimize_dialog desk title s =
     (Inr (), call_backend Dlg_minimize (s\<lparr>dlg := Some (desk (Some title))\<rparr>))"

definition restore_dialog :: "desktop \<Rightarrow> string \<Rightarrow> state \<Rightarrow> (exn + unit) \<times> state" where
  "restore_dialog desk title s =
     (Inr (), call_backend Dlg_restore (s\<lparr>dlg := Some (desk (Some title))\<rparr>))"

subsection \<open>The application registry\<close>

text \<open>
  \<^verbatim>\<open>
  if app_id is None and self._active_app_instance != -1:
      return self._apps[self._active_app_instance]
  else:
      return self._apps[app_id]
  \<close>
  The registry has integer keys only, so looking up \<open>None\<close> raises \<open>KeyError\<close>.
\<close>

definition get_app :: "int option \<Rightarrow> state \<Rightarrow> exn + session" where
  "get_app app_id s =
     (if app_id = None \<and> active_app_instance s \<noteq> - 1
      then (case apps s (active_app_instance s) of
              None \<Rightarrow> Inl KeyError
            | Some entry \<Rightarrow> Inr entry)
      else (case app_id of
              None \<Rightarrow> Inl KeyError
            | Some k \<Rightarrow>
                (case apps s k of
                   None \<Rightarrow> Inl KeyError
                 | Some entry \<Rightarrow> Inr entry)))"

text \<open>\<open>{**default_params, **params}\<close>: a key of \<open>params\<close> replaces the default.\<close>

definition merge_params :: "session \<Rightarrow> params \<Rightarrow> session" where
  "merge_params default_params ps =
     default_params
       \<lparr>s_dispatched := (case p_dispatched ps of None \<Rightarrow> s_dispatched default_params | Some b \<Rightarrow> b),
        s_executable := (case p_executable ps of None \<Rightarrow> s_executable default_params | Some e \<Rightarrow> Some e),
        s_windowtitle := (case p_windowtitle ps of None \<Rightarrow> s_windowtitle default_params | Some w \<Rightarrow> Some w)\<rparr>"

text \<open>\<open>if params:\<close> holds for a dictionary with at least one key.\<close>

fun truthy_params :: "params option \<Rightarrow> bool" where
  "truthy_params None = False"
| "truthy_params (Some ps) =
     (p_dispatched ps \<noteq> None \<or> p_executable ps \<noteq> None \<or> p_windowtitle ps \<noteq> None)"

text \<open>
  \<^verbatim>\<open>
  self._app_instance_id += 1
  if app is None:
      app = self.app
  else:
      self.app = app
  default_params = {"app": app, "id": self._app_instance_id, "dispatched": False}
  if params:
      self._apps[self._app_instance_id] = {**default_params, **params}
  else:
      self._apps[self._app_instance_id] = default_params
  self._active_app_instance = self._app_instance_id
  if dialog:
      self.open_dialog(self._apps[self._app_instance_id].get("windowtitle", None))
  return self._active_app_instance
  \<close>
\<close>

definition add_app_instance ::
  "desktop \<Rightarrow> app_obj option \<Rightarrow> bool \<Rightarrow> params option \<Rightarrow> state \<Rightarrow> (exn + int) \<times> state" where
  "add_app_instance desk app_arg dialog ps s =
     (let s1 = s\<lparr>app_instance_id := app_instance_id s + 1\<rparr>;
          s2 = (case app_arg of None \<Rightarrow> s1 | Some a \<Rightarrow> s1\<lparr>app := Some a\<rparr>);
          app1 = (case app_arg of None \<Rightarrow> app s1 | Some a \<Rightarrow> Some a);
          default_params =
            \<lparr>s_app = app1, s_id = app_instance_id s2, s_dispatched = False,
             s_executable = None, s_windowtitle = None, s_dlg = None\<rparr>;
          entry = (case ps of
                     None \<Rightarrow> default_params
                   | Some d \<Rightarrow> if truthy_params ps then merge_params default_params d
                               else default_params);
          s3 = s2\<lparr>apps := (apps s2)(app_instance_id s2 \<mapsto> entry)\<rparr>;
          s4 = s3\<lparr>active_app_instance := app_instance_id s3\<rparr>
      in if dialog
         then (case apps s4 (app_instance_id s4) of
                 None \<Rightarrow> (Inl KeyError, s4)
               | Some stored \<Rightarrow>
                   (case open_dialog desk (s_windowtitle stored) False s4 of
                      (Inl e, s5) \<Rightarrow> (Inl e, s5)
                    | (Inr u, s5) \<Rightarrow> (Inr (active_app_instance s5), s5)))
         else (Inr (active_app_instance s4), s4))"

text \<open>
  \<^verbatim>\<open>
  if app_id and app_id in self._apps.keys():
      app = self.get_app(app_id)
      self._active_app_instance = app_id
      self.app = app["app"]
      self.open_dialog(app["windowtitle"])
      delay(0.5)
      self.restore_dialog(app["windowtitle"])
  else:
      raise ValueError(f"No open application with id '{app_id}'")
  \<close>
  \<open>app\<close> is the stored dictionary itself; \<open>open_dialog\<close> writes its keys \<open>dlg\<close> and
  \<open>app\<close> only, so the title read before and after is the same.
\<close>

definition no_open_application :: "int option \<Rightarrow> exn" where
  "no_open_application app_id =
     ValueError (''No open application with id '' @ [CHR 0x27] @ str_int_option app_id @ [CHR 0x27])"

definition switch_to_application ::
  "desktop \<Rightarrow> int option \<Rightarrow> state \<Rightarrow> (exn + unit) \<times> state" where
  "switch_to_application desk app_id s =
     (case app_id of
        None \<Rightarrow> (Inl (no_open_application app_id), s)
      | Some k \<Rightarrow>
          if truthy_int app_id \<and> apps s k \<noteq> None
          then (case get_app app_id s of
                  Inl e \<Rightarrow> (Inl e, s)
                | Inr entry \<Rightarrow>
                    (let s1 = s\<lparr>active_app_instance := k\<rparr>;
                         s2 = s1\<lparr>app := s_app entry\<rparr>
                     in case s_windowtitle entry of
                          None \<Rightarrow> (Inl KeyError, s2)
                        | Some title \<Rightarrow>
                            (case open_dialog desk (Some title) False s2 of
                               (Inl e, s3) \<Rightarrow> (Inl e, s3)
                             | (Inr u, s3) \<Rightarrow> restore_dialog desk title s3)))
          else (Inl (no_open_application app_id), s))"

text \<open>
  \<^verbatim>\<open>
  app = self.get_app(app_id)
  app_id_to_quit = app["id"]
  if app["dispatched"]:
      app["app"].Quit()
  else:
      app["app"].kill()
  self._apps[app_id_to_quit]["app"] = None
  self._active_app_instance = -1
  \<close>
  When \<open>app["app"]\<close> is \<open>None\<close>, looking up \<open>Quit\<close> or \<open>kill\<close> on it raises
  \<open>AttributeError\<close>.
\<close>

definition quit :: "int option \<Rightarrow> state \<Rightarrow> (exn + unit) \<times> state" where
  "quit app_id s =
     (case get_app app_id s of
        Inl e \<Rightarrow> (Inl e, s)
      | Inr entry \<Rightarrow>
          (let app_id_to_quit = s_id entry in
           case s_app entry of
             None \<Rightarrow> (Inl AttributeError, s)
           | Some a \<Rightarrow>
               (let s1 = call_backend (if s_dispatched entry then Quit_call a else Kill_call a) s in
                case apps s1 app_id_to_quit of
                  None \<Rightarrow> (Inl KeyError, s1)
                | Some stored \<Rightarrow>
                    (Inr (), s1\<lparr>apps := (apps s1)(app_id_to_quit \<mapsto> stored\<lparr>s_app := None\<rparr>),
                                active_app_instance := - 1\<rparr>))))"

text \<open>
  \<^verbatim>\<open>
  application_ids = self._apps.keys()
  for aid in application_ids:
      self.quit(aid)
  \<close>
  A dictionary iterates its keys in insertion order. Keys are inserted by
  \<open>_add_app_instance\<close> only, each the counter just incremented, so the keys in insertion
  order are the registered ones among \<open>1, ..., self._app_instance_id\<close>, ascending.
\<close>

definition registry_keys :: "state \<Rightarrow> int list" where
  "registry_keys s = filter (\<lambda>k. apps s k \<noteq> None) [1 .. app_instance_id s]"

fun quit_each :: "int list \<Rightarrow> state \<Rightarrow> (exn + unit) \<times> state" where
  "quit_each [] s = (Inr (), s)"
| "quit_each (aid # aids) s =
     (case quit (Some aid) s of
        (Inl e, s1) \<Rightarrow> (Inl e, s1)
      | (Inr u, s1) \<Rightarrow> quit_each aids s1)"

definition close_all_applications :: "state \<Rightarrow> (exn + unit) \<times> state" where
  "close_all_applications s = quit_each (registry_keys s) s"

subsection \<open>Keyboard input and the four ways to open an application\<close>

definition send_keys :: "string \<Rightarrow> state \<Rightarrow> (exn + unit) \<times> state" where
  "send_keys keys s = (Inr (), call_backend (Send_keys keys) s)"

text \<open>
  \<^verbatim>\<open>
  if platform.system() == "Windows":
      win32api.LoadKeyboardLayout("00000409", 1)
  self.send_keys(keys_to_type)
  delay(send_delay)
  if with_enter:
      self.send_keys("{ENTER}")
      delay(enter_delay)
  \<close>
  The module drives pywinauto, which exists on Windows only.
\<close>

definition send_keys_to_input :: "string \<Rightarrow> bool \<Rightarrow> state \<Rightarrow> (exn + unit) \<times> state" where
  "send_keys_to_input keys_to_type with_enter s =
     (let s1 = call_backend Load_keyboard_layout s;
          s2 = call_backend (Send_keys keys_to_type) s1
      in (Inr (), if with_enter then call_backend (Send_keys ''{ENTER}'') s2 else s2))"

text \<open>\<open>self.dlg.type_keys(keys)\<close>\<close>

definition type_keys :: "string \<Rightarrow> state \<Rightarrow> (exn + unit) \<times> state" where
  "type_keys keys s =
     (case dlg s of
        None \<Rightarrow> (Inl AttributeError, s)
      | Some d \<Rightarrow> (Inr (), call_backend (Type_keys keys) s))"

text \<open>
  \<^verbatim>\<open>
  app = win32com.client.gencache.EnsureDispatch(f"{application}.Application")
  ...
  return self._add_app_instance(app, dialog=False, params={"dispatched": True})
  \<close>
\<close>

definition open_application :: "desktop \<Rightarrow> string \<Rightarrow> state \<Rightarrow> (exn + int) \<times> state" where
  "open_application desk application s =
     add_app_instance desk (Some (Dispatched application)) False
       (Some \<lparr>p_dispatched = Some True, p_executable = None, p_windowtitle = None\<rparr>) s"

text \<open>
  \<^verbatim>\<open>
  params = {"executable": executable, "windowtitle": windowtitle}
  self.windowtitle = windowtitle
  app = pywinauto.Application(backend="uia").start(executable)
  return self._add_app_instance(app, dialog=True, params=params)
  \<close>
\<close>

definition open_executable :: "desktop \<Rightarrow> string \<Rightarrow> string \<Rightarrow> state \<Rightarrow> (exn + int) \<times> state" where
  "open_executable desk executable title s =
     add_app_instance desk (Some (Started executable)) True
       (Some \<lparr>p_dispatched = None, p_executable = Some executable, p_windowtitle = Some title\<rparr>)
       (s\<lparr>windowtitle := Some title\<rparr>)"

text \<open>
  \<^verbatim>\<open>
  self.send_keys("{VK_LWIN down}r{VK_LWIN up}")
  delay(1)
  self.send_keys_to_input(executable)
  params = {"windowtitle": windowtitle, "executable": executable}
  return self._add_app_instance(params=params, dialog=True)
  \<close>
\<close>

definition open_using_run_dialog :: "desktop \<Rightarrow> string \<Rightarrow> string \<Rightarrow> state \<Rightarrow> (exn + int) \<times> state" where
  "open_using_run_dialog desk executable title s =
     (let s1 = snd (send_keys ''{VK_LWIN down}r{VK_LWIN up}'' s);
          s2 = snd (send_keys_to_input executable True s1)
      in add_app_instance desk None True
           (Some \<lparr>p_dispatched = None, p_executable = Some executable, p_windowtitle = Some title\<rparr>) s2)"

definition open_from_search :: "desktop \<Rightarrow> string \<Rightarrow> string \<Rightarrow> state \<Rightarrow> (exn + int) \<times> state" where
  "open_from_search desk executable title s =
     (let s1 = snd (send_keys ''{LWIN}'' s);
          s2 = snd (send_keys_to_input executable True s1)
      in add_app_instance desk None True
           (Some \<lparr>p_dispatched = None, p_executable = Some executable, p_windowtitle = Some title\<rparr>) s2)"

text \<open>
  \<^verbatim>\<open>
  app = self.get_app()
  app["dlg"].menu_select(menuitem)
  \<close>
\<close>

definition menu_select :: "string \<Rightarrow> state \<Rightarrow> (exn + unit) \<times> state" where
  "menu_select menuitem s =
     (case get_app None s of
        Inl e \<Rightarrow> (Inl e, s)
      | Inr entry \<Rightarrow>
          (case s_dlg entry of
             None \<Rightarrow> (Inl KeyError, s)
           | Some d \<Rightarrow> (Inr (), call_backend (Menu_select menuitem) s)))"

subsection \<open>Mouse clicks\<close>

text \<open>
  \<open>v < 0\<close> for a coordinate that may be \<open>None\<close>: comparing \<open>None\<close> with an integer
  raises \<open>TypeError\<close>.
\<close>

fun lt_zero :: "int option \<Rightarrow> exn + bool" where
  "lt_zero None = Inl TypeError"
| "lt_zero (Some v) = Inr (v < 0)"

text \<open>
  The guard \<open>(x is None and y is None) or (x < 0 or y < 0)\<close>, with Python's
  left-to-right, short-circuit evaluation: \<open>y < 0\<close> is evaluated only when \<open>x < 0\<close> is
  false.
\<close>

definition invalid_coordinates :: "int option \<Rightarrow> int option \<Rightarrow> exn + bool" where
  "invalid_coordinates x y =
     (if x = None \<and> y = None then Inr True
      else (case lt_zero x of
              Inl e \<Rightarrow> Inl e
            | Inr bx \<Rightarrow> if bx then Inr True else lt_zero y))"

text \<open>
  \<^verbatim>\<open>
  if (x is None and y is None) or (x < 0 or y < 0):
      raise ValueError("Can't click on given coordinates: ({x}, {y})")
  if click_type == "click":
      pywinauto.mouse.click(coords=(x, y))
  elif click_type == "double":
      pywinauto.mouse.double_click(coords=(x, y))
  elif click_type == "right":
      pywinauto.mouse.right_click(coords=(x, y))
  \<close>
  The message is not an f-string: the braces are part of it. Past the guard both
  coordinates are integers.
\<close>

definition cant_click :: exn where
  "cant_click = ValueError (''Can'' @ [CHR 0x27] @ ''t click on given coordinates: ({x}, {y})'')"

definition click_type :: "int option \<Rightarrow> int option \<Rightarrow> string \<Rightarrow> state \<Rightarrow> (exn + unit) \<times> state" where
  "click_type x y ctype s =
     (case invalid_coordinates x y of
        Inl e \<Rightarrow> (Inl e, s)
      | Inr invalid \<Rightarrow>
          if invalid then (Inl cant_click, s)
          else (case (x, y) of
                  (Some cx, Some cy) \<Rightarrow>
                    if ctype = ''click'' then (Inr (), call_backend (Mouse_click cx cy) s)
                    else if ctype = ''double'' then (Inr (), call_backend (Mouse_double_click cx cy) s)
                    else if ctype = ''right'' then (Inr (), call_backend (Mouse_right_click cx cy) s)
                    else (Inr (), s)
                | _ \<Rightarrow> (Inl TypeError, s)))"

text \<open>
  \<^verbatim>\<open>
  self.click_type(x, y, ctype)
  delay()
  \<close>
\<close>

definition mouse_click_coords :: "int option \<Rightarrow> int option \<Rightarrow> string \<Rightarrow> state \<Rightarrow> (exn + unit) \<times> state" where
  "mouse_click_coords x y ctype s = click_type x y ctype s"

text \<open>The backend mouse primitives among the recorded calls.\<close>

fun is_mouse_call :: "event \<Rightarrow> bool" where
  "is_mouse_call (Mouse_click x y) = True"
| "is_mouse_call (Mouse_double_click x y) = True"
| "is_mouse_call (Mouse_right_click x y) = True"
| "is_mouse_call _ = False"

definition mouse_calls :: "state \<Rightarrow> event list" where
  "mouse_calls s = filter is_mouse_call (trace s)"

text \<open>The primitive a click type selects: \<open>click\<close> is the left button.\<close>

definition click_event :: "string \<Rightarrow> int \<Rightarrow> int \<Rightarrow> event" where
  "click_event ctype x y =
     (if ctype = ''click'' then Mouse_click x y
      else if ctype = ''double'' then Mouse_double_click x y
      else Mouse_right_click x y)"

subsection \<open>Finding elements\<close>

text \<open>
  \<open>get_window_elements()\<close> with its default arguments: the attribute snapshots of
  \<open>self.dlg\<close> and its descendants. \<open>None\<close> has neither descendants nor \<open>element_info\<close>,
  so without a window the list is empty.
\<close>

definition get_window_elements :: "state \<Rightarrow> snapshot list" where
  "get_window_elements s = (case dlg s of None \<Rightarrow> [] | Some d \<Rightarrow> w_elements d)"

text \<open>
  \<^verbatim>\<open>
  for element in elements:
      if self.is_element_matching(element, locator, search_criteria):
          matching_elements.append(element)
      if search_criteria == "any" and "name" in element:
          locators.append(element["name"])
      elif search_criteria and search_criteria in element:
          locators.append(element[search_criteria])
  return matching_elements, locators
  \<close>
\<close>

fun find_element_loop ::
  "snapshot list \<Rightarrow> string \<Rightarrow> string \<Rightarrow> snapshot list \<Rightarrow> string list \<Rightarrow> snapshot list \<times> string list" where
  "find_element_loop [] locator search_criteria matching_elements locators =
     (matching_elements, locators)"
| "find_element_loop (element # elements) locator search_criteria matching_elements locators =
     (let matching1 = (if is_element_matching element locator search_criteria
                       then matching_elements @ [element] else matching_elements);
          locators1 =
            (if search_criteria = ''any'' \<and> element ''name'' \<noteq> None
             then (case element ''name'' of None \<Rightarrow> locators | Some v \<Rightarrow> locators @ [v])
             else if search_criteria \<noteq> [] \<and> element search_criteria \<noteq> None
             then (case element search_criteria of None \<Rightarrow> locators | Some v \<Rightarrow> locators @ [v])
             else locators)
      in find_element_loop elements locator search_criteria matching1 locators1)"

definition find_element :: "string \<Rightarrow> string \<Rightarrow> state \<Rightarrow> snapshot list \<times> string list" where
  "find_element locator search_criteria s =
     find_element_loop (get_window_elements s) locator search_criteria [] []"

subsection \<open>Screenshot of an element\<close>

text \<open>
  \<open>screenshot(filename, element=element)\<close> as \<open>mouse_click_locator\<close> calls it, with a
  matched element, which has at least one key and so is truthy:
  \<^verbatim>\<open>
  region = self.get_element_coordinates(element["rectangle"])
  ...
  filename = Path(output_dir, "images", clean_filename(filename))
  os.makedirs(filename.parent)
  Images().take_screenshot(filename=filename, region=region)
  \<close>
  \<open>os.makedirs\<close> without \<open>exist_ok\<close> raises \<open>FileExistsError\<close> when the directory is
  there already.
\<close>

definition screenshot_element :: "snapshot \<Rightarrow> state \<Rightarrow> (exn + unit) \<times> state" where
  "screenshot_element element s =
     (case element ''rectangle'' of
        None \<Rightarrow> (Inl KeyError, s)
      | Some rectangle \<Rightarrow>
          (case get_element_coordinates rectangle of
             Inl e \<Rightarrow> (Inl e, s)
           | Inr region \<Rightarrow>
               if images_dir_exists s then (Inl FileExistsError, s)
               else (Inr (), call_backend (Take_screenshot region) (s\<lparr>images_dir_exists := True\<rparr>))))"

subsection \<open>Click at a locator\<close>

text \<open>
  \<^verbatim>\<open>
  self.dlg.wait("exists enabled visible ready")
  self.open_dialog(self.windowtitle)
  search_criteria, locator = self._determine_search_criteria(locator)
  matching_elements, locators = self.find_element(locator, search_criteria)
  ...
  if len(matching_elements) == 0:
      self.logger.info(...)
  elif len(matching_elements) == 1:
      element = matching_elements[0]
      if screenshot:
          self.screenshot(f"locator_{locator}", element=element)
      ...
      x, y = self.get_element_center(element)
      self.click_type(x + off_x, y + off_y, ctype)
      delay()
      return True
  else:
      self.logger.info(...)
  return False
  \<close>
  \<open>self.dlg\<close> is \<open>None\<close> until a window has been opened, and \<open>None.wait\<close> raises
  \<open>AttributeError\<close>; so does \<open>None.startswith\<close> when no locator is given. The list of
  suggested locators goes into log messages only.
\<close>

definition mouse_click_locator ::
  "desktop \<Rightarrow> string option \<Rightarrow> int \<Rightarrow> int \<Rightarrow> string \<Rightarrow> bool \<Rightarrow> state \<Rightarrow> (exn + bool) \<times> state" where
  "mouse_click_locator desk locator off_x off_y ctype screenshot s =
     (case dlg s of
        None \<Rightarrow> (Inl AttributeError, s)
      | Some d0 \<Rightarrow>
          (case open_dialog desk (windowtitle s) False (call_backend Dlg_wait s) of
             (Inl e, s1) \<Rightarrow> (Inl e, s1)
           | (Inr u, s1) \<Rightarrow>
               (case locator of
                  None \<Rightarrow> (Inl AttributeError, s1)
                | Some loc \<Rightarrow>
                    (let (search_criteria, locator1) = determine_search_criteria loc;
                         (matching_elements, locators) = find_element locator1 search_criteria s1
                     in case matching_elements of
                          [] \<Rightarrow> (Inr False, s1)
                        | [element] \<Rightarrow>
                            (case (if screenshot then screenshot_element element s1
                                   else (Inr (), s1)) of
                               (Inl e, s2) \<Rightarrow> (Inl e, s2)
                             | (Inr u, s2) \<Rightarrow>
                                 (case get_element_center element of
                                    Inl e \<Rightarrow> (Inl e, s2)
                                  | Inr (x, y) \<Rightarrow>
                                      (case click_type (Some (x + off_x)) (Some (y + off_y)) ctype s2 of
                                         (Inl e, s3) \<Rightarrow> (Inl e, s3)
                                       | (Inr u, s3) \<Rightarrow> (Inr True, s3))))
                        | _ \<Rightarrow> (Inr False, s1)))))"

text \<open>
  \<^verbatim>\<open>
  if method == "locator":
      self.mouse_click_locator(locator, off_x, off_y, ctype, screenshot)
  elif method == "coordinates":
      self.mouse_click_coords(x, y, ctype)
  elif method == "image":
      self.mouse_click_image(image, off_x, off_y, ctype)
  elif method == "ocr":
      self.mouse_click_ocr(ocr, off_x, off_y, ctype)
  \<close>
  The image and OCR clicks raise \<open>NotImplementedError\<close>; the result of the locator click
  is dropped.
\<close>

definition mouse_click ::
  "desktop \<Rightarrow> string option \<Rightarrow> int option \<Rightarrow> int option \<Rightarrow> int \<Rightarrow> int \<Rightarrow> string \<Rightarrow> string \<Rightarrow> bool \<Rightarrow>
   state \<Rightarrow> (exn + unit) \<times> state" where
  "mouse_click desk locator x y off_x off_y method ctype screenshot s =
     (if method = ''locator''
      then (case mouse_click_locator desk locator off_x off_y ctype screenshot s of
              (Inl e, s1) \<Rightarrow> (Inl e, s1)
            | (Inr b, s1) \<Rightarrow> (Inr (), s1))
      else if method = ''coordinates'' then mouse_click_coords x y ctype s
      else if method = ''image'' then (Inl NotImplementedError, s)
      else if method = ''ocr'' then (Inl NotImplementedError, s)
      else (Inr (), s))"

subsection \<open>Histories of calls\<close>

text \<open>
  A caller uses one \<open>Windows\<close> object through a sequence of method calls, each against the
  desktop as it is at that moment. A call that raises leaves the object as it was when
  the exception was raised, and the caller may go on using it.
\<close>

datatype call =
    Call_add_app_instance "app_obj option" bool "params option"
  | Call_open_application string
  | Call_open_executable string string
  | Call_open_using_run_dialog string string
  | Call_open_from_search string string
  | Call_switch_to_application "int option"
  | Call_quit "int option"
  | Call_close_all_applications
  | Call_open_dialog "string option" bool
  | Call_connect_by_handle int
  | Call_minimize_dialog string
  | Call_restore_dialog string
  | Call_send_keys string
  | Call_send_keys_to_input string bool
  | Call_type_keys string
  | Call_menu_select string
  | Call_click_type "int option" "int option" string
  | Call_mouse_click_coords "int option" "int option" string
  | Call_mouse_click_locator "string option" int int string bool
  | Call_mouse_click "string option" "int option" "int option" int int string string bool

definition forget :: "(exn + 'a) \<times> state \<Rightarrow> (exn + int option) \<times> state" where
  "forget r = (case r of (Inl e, s) \<Rightarrow> (Inl e, s) | (Inr v, s) \<Rightarrow> (Inr None, s))"

definition assigned :: "(exn + int) \<times> state \<Rightarrow> (exn + int option) \<times> state" where
  "assigned r = (case r of (Inl e, s) \<Rightarrow> (Inl e, s) | (Inr v, s) \<Rightarrow> (Inr (Some v), s))"

text \<open>
  One call: its outcome (for the calls that register a session, the instance id they
  return) and the state it leaves.
\<close>

fun exec :: "desktop \<Rightarrow> call \<Rightarrow> state \<Rightarrow> (exn + int option) \<times> state" where
  "exec desk (Call_add_app_instance a d ps) s = assigned (add_app_instance desk a d ps s)"
| "exec desk (Call_open_application a) s = assigned (open_application desk a s)"
| "exec desk (Call_open_executable e w) s = assigned (open_executable desk e w s)"
| "exec desk (Call_open_using_run_dialog e w) s = assigned (open_using_run_dialog desk e w s)"
| "exec desk (Call_open_from_search e w) s = assigned (open_from_search desk e w s)"
| "exec desk (Call_switch_to_application i) s = forget (switch_to_application desk i s)"
| "exec desk (Call_quit i) s = forget (quit i s)"
| "exec desk Call_close_all_applications s = forget (close_all_applications s)"
| "exec desk (Call_open_dialog w h) s = forget (open_dialog desk w h s)"
| "exec desk (Call_connect_by_handle h) s = forget (connect_by_handle h s)"
| "exec desk (Call_minimize_dialog w) s = forget (minimize_dialog desk w s)"
| "exec desk (Call_restore_dialog w) s = forget (restore_dialog desk w s)"
| "exec desk (Call_send_keys k) s = forget (send_keys k s)"
| "exec desk (Call_send_keys_to_input k e) s = forget (send_keys_to_input k e s)"
| "exec desk (Call_type_keys k) s = forget (type_keys k s)"
| "exec desk (Call_menu_select m) s = forget (menu_select m s)"
| "exec desk (Call_click_type x y c) s = forget (click_type x y c s)"
| "exec desk (Call_mouse_click_coords x y c) s = forget (mouse_click_coords x y c s)"
| "exec desk (Call_mouse_click_locator l ox oy c sc) s =
     forget (mouse_click_locator desk l ox oy c sc s)"
| "exec desk (Call_mouse_click l x y ox oy m c sc) s =
     forget (mouse_click desk l x y ox oy m c sc s)"

fun run :: "(desktop \<times> call) list \<Rightarrow> state \<Rightarrow> state" where
  "run [] s = s"
| "run ((desk, c) # cs) s = run cs (snd (exec desk c s))"

text \<open>The instance ids returned along a history, in the order of the calls.\<close>

fun assigned_ids :: "(desktop \<times> call) list \<Rightarrow> state \<Rightarrow> int list" where
  "assigned_ids [] s = []"
| "assigned_ids ((desk, c) # cs) s =
     (case exec desk c s of
        (Inr (Some i), s1) \<Rightarrow> i # assigned_ids cs s1
      | (r, s1) \<Rightarrow> assigned_ids cs s1)"

text \<open>
  What the registry satisfies after every history: a session's \<open>id\<close> is the key it is stored
  under, the keys lie between 1 and the counter, and the active pointer is \<open>-1\<close> or a
  key.
\<close>

definition registry_ok :: "state \<Rightarrow> bool" where
  "registry_ok s =
     ((\<forall>k entry. apps s k = Some entry \<longrightarrow> s_id entry = k \<and> 1 \<le> k \<and> k \<le> app_instance_id s)
      \<and> (active_app_instance s = - 1 \<or> apps s (active_app_instance s) \<noteq> None)
      \<and> 0 \<le> app_instance_id s)"

subsection \<open>Rectangle strings of the backend's form\<close>

text \<open>
  Strings of the form \<open>(L10, T20, R110, B220)\<close>: the four letters, each
  followed by the decimal numeral of a non-negative integer, separated by a comma and a
  space.
\<close>

definition rect_string :: "int \<Rightarrow> int \<Rightarrow> int \<Rightarrow> int \<Rightarrow> string" where
  "rect_string l t r b =
     ''(L'' @ str_nat l @ '', T'' @ str_nat t @ '', R'' @ str_nat r @ '', B'' @ str_nat b @ '')''"

subsection \<open>Notions for the registry along a history\<close>

text \<open>
  The calls that register a session, the \<open>id\<close> stored under each key, and the relation
  between two states whose registries hold the same ids under the same keys, with the
  same counter and the same active pointer.
\<close>

fun is_registration :: "call \<Rightarrow> bool" where
  "is_registration (Call_add_app_instance a d ps) = True"
| "is_registration (Call_open_application a) = True"
| "is_registration (Call_open_executable e w) = True"
| "is_registration (Call_open_using_run_dialog e w) = True"
| "is_registration (Call_open_from_search e w) = True"
| "is_registration _ = False"

definition session_ids :: "state \<Rightarrow> int \<rightharpoonup> int" where
  "session_ids s = (\<lambda>k. map_option s_id (apps s k))"

definition kept :: "state \<Rightarrow> state \<Rightarrow> bool" where
  "kept s s' =
     (session_ids s' = session_ids s \<and> app_instance_id s' = app_instance_id s
      \<and> active_app_instance s' = active_app_instance s)"

subsection \<open>A sample desktop\<close>

text \<open>
  One window with an OK and a Cancel button, for the concrete instances below.
\<close>

definition ok_button :: snapshot where
  "ok_button =
     [''name'' \<mapsto> ''OK'', ''control_type'' \<mapsto> ''Button'',
      ''rectangle'' \<mapsto> ''(L10, T20, R110, B220)'']"

definition cancel_button :: snapshot where
  "cancel_button =
     [''name'' \<mapsto> ''Cancel'', ''control_type'' \<mapsto> ''Button'',
      ''rectangle'' \<mapsto> ''(L120, T20, R220, B220)'']"

definition sample_desktop :: desktop where
  "sample_desktop title = \<lparr>w_handle = 4242, w_elements = [ok_button, cancel_button]\<rparr>"

subsection \<open>Sample histories\<close>

text \<open>
  Three sessions opened on the sample desktop, the first one closed in between; and a
  history that closes the first of two sessions.
\<close>

definition sample_history :: "(desktop \<times> call) list" where
  "sample_history =
     [(sample_desktop, Call_open_application ''Excel''),
      (sample_desktop, Call_open_executable ''notepad.exe'' ''Untitled - Notepad''),
      (sample_desktop, Call_quit (Some 1)),
      (sample_desktop, Call_open_from_search ''calc'' ''Calculator'')]"

definition closed_session_history :: "(desktop \<times> call) list" where
  "closed_session_history =
     [(sample_desktop, Call_open_application ''Excel''),
      (sample_desktop, Call_quit (Some 1)),
      (sample_desktop, Call_open_application ''Word'')]"

subsection \<open>The elements of the current window that match a locator\<close>

text \<open>
  The window a locator click works on is the one the desktop resolves the current window
  title to; the locator is parsed first, and an element matches when
  \<open>is_element_matching\<close> holds for the parsed value and criterion.
\<close>

definition window_matches :: "desktop \<Rightarrow> string \<Rightarrow> state \<Rightarrow> snapshot list" where
  "window_matches desk locator s =
     filter
       (\<lambda>element. is_element_matching element (snd (determine_search_criteria locator))
          (fst (determine_search_criteria locator)))
       (w_elements (desk (windowtitle s)))"

definition sample_session :: state where
  "sample_session =
     run [(sample_desktop, Call_open_executable ''app.exe'' ''Sample'')] (init_state False)"

section \<open>Properties\<close>

subsection \<open>Element matching\<close>

lemma is_element_matching_field:
  "criteria \<noteq> ''any'' \<Longrightarrow>
   is_element_matching itemdict locator criteria = (itemdict criteria = Some locator)"
  by (subst is_element_matching.simps) auto

text \<open>
  Claim C6. Under the criterion \<open>any\<close> an element snapshot matches exactly when the
  locator value equals at least one of its fields \<open>name\<close>, \<open>class_name\<close>,
  \<open>control_type\<close>, \<open>automation_id\<close>; under any other criterion it matches exactly when
  the locator value equals the field of that name.
\<close>

theorem is_element_matching_iff:
  "is_element_matching itemdict locator criteria =
     (if criteria = ''any''
      then itemdict ''name'' = Some locator \<or> itemdict ''class_name'' = Some locator
           \<or> itemdict ''control_type'' = Some locator \<or> itemdict ''automation_id'' = Some locator
      else itemdict criteria = Some locator)"
proof (cases "criteria = ''any''")
  case True
  show ?thesis
    unfolding True
    by (subst is_element_matching.simps) (simp add: is_element_matching_field Let_def)
next
  case False
  then show ?thesis by (simp add: is_element_matching_field)
qed

theorem is_element_matching_iff_witness:
  "is_element_matching ok_button ''Button'' ''any''
   \<and> \<not> is_element_matching ok_button ''Button'' ''name''
   \<and> is_element_matching ok_button ''OK'' ''name''
   \<and> \<not> is_element_matching ok_button ''Submit'' ''any''"
  using is_element_matching_iff [of ok_button "''Button''" "''any''"]
        is_element_matching_iff [of ok_button "''Button''" "''name''"]
        is_element_matching_iff [of ok_button "''OK''" "''name''"]
        is_element_matching_iff [of ok_button "''Submit''" "''any''"]
  by (simp add: ok_button_def)

subsection \<open>Locator parsing\<close>

lemma py_split_acc_at_separator:
  "sep \<noteq> [] \<Longrightarrow> py_split_acc sep cur (sep @ rest) = cur # py_split_acc sep [] rest"
  by (cases sep) (simp_all add: startswith_def)

lemma determine_search_criteria_any:
  "\<not> startswith locator ''name:'' \<Longrightarrow> \<not> startswith locator ''class:'' \<Longrightarrow>
   \<not> startswith locator ''type:'' \<Longrightarrow> \<not> startswith locator ''id:'' \<Longrightarrow>
   determine_search_criteria locator = (''any'', locator)"
  by (simp add: determine_search_criteria_def)

lemma determine_search_criteria_name:
  "determine_search_criteria (''name:'' @ rest) = (''name'', concat (py_split rest ''name:''))"
  using py_split_acc_at_separator [of "''name:''" "[]" rest]
  by (simp add: determine_search_criteria_def startswith_def py_split_def join_empty_def
      slice_from_1_def)

lemma py_split_acc_no_separator:
  "\<forall>i<length s. \<not> startswith (drop i s) sep \<Longrightarrow> py_split_acc sep cur s = [cur @ s]"
proof (induction s arbitrary: cur)
  case Nil
  then show ?case by simp
next
  case (Cons c cs)
  from Cons.prems have here: "\<not> startswith (c # cs) sep" by fastforce
  have "\<forall>i<length cs. \<not> startswith (drop i cs) sep"
  proof (intro allI impI)
    fix i assume "i < length cs"
    with Cons.prems have "\<not> startswith (drop (Suc i) (c # cs)) sep" by fastforce
    then show "\<not> startswith (drop i cs) sep" by simp
  qed
  from Cons.IH [OF this, of "cur @ [c]"] here show ?case by simp
qed

lemma strip_single_tag:
  assumes "tag \<noteq> []" and "\<forall>i<length rest. \<not> startswith (drop i rest) tag"
  shows "join_empty (slice_from_1 (py_split (tag @ rest) tag)) = rest"
proof -
  have "py_split (tag @ rest) tag = [[], rest]"
    using py_split_acc_at_separator [OF assms(1), of "[]" rest]
      py_split_acc_no_separator [OF assms(2), of "[]"]
    by (simp add: py_split_def)
  then show ?thesis
    by (simp add: join_empty_def slice_from_1_def)
qed

text \<open>
  Where the tag does not occur again after the prefix, the value is the text after the
  prefix, unchanged.
\<close>

lemma determine_search_criteria_single_tag:
  shows "\<forall>i<length rest. \<not> startswith (drop i rest) ''name:'' \<Longrightarrow>
         determine_search_criteria (''name:'' @ rest) = (''name'', rest)"
    and "\<forall>i<length rest. \<not> startswith (drop i rest) ''class:'' \<Longrightarrow>
         determine_search_criteria (''class:'' @ rest) = (''class_name'', rest)"
    and "\<forall>i<length rest. \<not> startswith (drop i rest) ''type:'' \<Longrightarrow>
         determine_search_criteria (''type:'' @ rest) = (''control_type'', rest)"
    and "\<forall>i<length rest. \<not> startswith (drop i rest) ''id:'' \<Longrightarrow>
         determine_search_criteria (''id:'' @ rest) = (''automation_id'', rest)"
  using strip_single_tag [of "''name:''" rest] strip_single_tag [of "''class:''" rest]
    strip_single_tag [of "''type:''" rest] strip_single_tag [of "''id:''" rest]
  by (simp_all add: determine_search_criteria_def startswith_def)

text \<open>
  Claim C2. A locator with a recognized prefix should give the criterion of the prefix
  and the text after the first tag, otherwise unchanged. The code joins all the pieces
  that \<open>split\<close> returns after the first, so every later occurrence of the tag is removed
  from the value as well: \<open>name:aname:b\<close> gives the value \<open>ab\<close>, not \<open>aname:b\<close>.
\<close>

theorem determine_search_criteria_drops_later_tags:
  "determine_search_criteria ''name:aname:b'' = (''name'', ''ab'')"
  by (simp add: determine_search_criteria_def startswith_def py_split_def join_empty_def
      slice_from_1_def)

subsection \<open>Coordinate clicks\<close>

text \<open>
  Claim C7. A click at integer coordinates with \<open>x < 0\<close> or \<open>y < 0\<close> raises the
  \<open>ValueError\<close> of \<open>click_type\<close> and leaves the state, and so the record of backend
  calls, as it was. With both coordinates non-negative and the click type one of
  \<open>click\<close>, \<open>double\<close>, \<open>right\<close>, it returns normally after exactly one backend call,
  the left, double or right click at those coordinates.
\<close>

theorem coordinate_click:
  "(a < 0 \<or> b < 0 \<longrightarrow>
      mouse_click_coords (Some a) (Some b) ctype s = (Inl cant_click, s)
      \<and> click_type (Some a) (Some b) ctype s = (Inl cant_click, s))
   \<and> (0 \<le> a \<and> 0 \<le> b \<and> ctype \<in> {''click'', ''double'', ''right''} \<longrightarrow>
      mouse_click_coords (Some a) (Some b) ctype s =
        (Inr (), s\<lparr>trace := trace s @ [click_event ctype a b]\<rparr>)
      \<and> click_type (Some a) (Some b) ctype s =
        (Inr (), s\<lparr>trace := trace s @ [click_event ctype a b]\<rparr>)
      \<and> mouse_calls (snd (mouse_click_coords (Some a) (Some b) ctype s)) =
        mouse_calls s @ [click_event ctype a b])"
  by (auto simp: mouse_click_coords_def click_type_def invalid_coordinates_def click_event_def
      call_backend_def mouse_calls_def)

theorem coordinate_click_witness:
  "mouse_click_coords (Some 3) (Some (- 1)) ''click'' (init_state False) =
     (Inl cant_click, init_state False)
   \<and> mouse_click_coords (Some 3) (Some 4) ''double'' (init_state False) =
     (Inr (), (init_state False)\<lparr>trace := [Mouse_double_click 3 4]\<rparr>)
   \<and> mouse_calls (snd (mouse_click_coords (Some 3) (Some 4) ''double'' (init_state False))) =
     [Mouse_double_click 3 4]"
  using coordinate_click [of 3 "- 1" "''click''" "init_state False"]
        coordinate_click [of 3 4 "''double''" "init_state False"]
  by (simp add: click_event_def init_state_def mouse_calls_def)

subsection \<open>The guard of \<open>click_type\<close>\<close>

text \<open>
  Claim C10, as the code has it. \<open>click_type\<close> raises \<open>TypeError\<close> exactly when \<open>x\<close> is
  \<open>None\<close> and \<open>y\<close> is not, or \<open>x\<close> is a non-negative number and \<open>y\<close> is \<open>None\<close>. It
  raises its \<open>ValueError\<close> exactly when both are \<open>None\<close>, or \<open>x\<close> is a negative number
  (whatever \<open>y\<close> is, \<open>None\<close> included: \<open>y < 0\<close> is not evaluated then), or \<open>x\<close> is a
  non-negative number and \<open>y\<close> a negative one. In both cases the state is unchanged.
\<close>

theorem click_type_guard:
  "((fst (click_type x y ctype s) = Inl TypeError) =
      (case x of None \<Rightarrow> y \<noteq> None | Some a \<Rightarrow> 0 \<le> a \<and> y = None))
   \<and> ((fst (click_type x y ctype s) = Inl cant_click) =
      (case x of
         None \<Rightarrow> y = None
       | Some a \<Rightarrow> a < 0 \<or> (case y of None \<Rightarrow> False | Some b \<Rightarrow> b < 0)))
   \<and> ((\<exists>e. fst (click_type x y ctype s) = Inl e) \<longrightarrow> snd (click_type x y ctype s) = s)"
  by (auto simp: click_type_def invalid_coordinates_def cant_click_def call_backend_def
      split: option.splits if_splits)

theorem click_type_guard_witness:
  "fst (click_type None (Some 5) ''click'' (init_state False)) = Inl TypeError
   \<and> fst (click_type (Some 5) None ''click'' (init_state False)) = Inl TypeError
   \<and> fst (click_type None None ''click'' (init_state False)) = Inl cant_click
   \<and> fst (click_type (Some (- 1)) (Some 5) ''click'' (init_state False)) = Inl cant_click
   \<and> snd (click_type None (Some 5) ''click'' (init_state False)) = init_state False"
  using click_type_guard [of None "Some 5" "''click''" "init_state False"]
        click_type_guard [of "Some 5" None "''click''" "init_state False"]
        click_type_guard [of None None "''click''" "init_state False"]
        click_type_guard [of "Some (- 1)" "Some 5" "''click''" "init_state False"]
  by simp

text \<open>
  The claim as stated fails where exactly one coordinate is \<open>None\<close> and the other is a
  negative \<open>x\<close>: the call raises the \<open>ValueError\<close>, not \<open>TypeError\<close>.
\<close>

theorem click_type_negative_x_None_y:
  "click_type (Some (- 1)) None ''click'' (init_state False) = (Inl cant_click, init_state False)
   \<and> cant_click \<noteq> TypeError"
  by (simp add: click_type_def invalid_coordinates_def cant_click_def)

subsection \<open>Teardown\<close>

text \<open>
  Claim C9, as the code has it. When the clipboard helper raises a \<open>RuntimeError\<close> (or an
  exception of a class derived from it), \<open>__del__\<close> catches it, logs it at debug level
  and returns normally. An exception of any other class is neither caught nor logged by
  the handler: it leaves \<open>__del__\<close>.
\<close>

theorem teardown_catches_RuntimeError:
  "(is_RuntimeError e \<longrightarrow>
      dunder_del (Some e) s =
        (None, s\<lparr>trace := trace s @ [Clear_clipboard],
                 log := log s @ [Debug_failed_to_clear_clipboard e]\<rparr>))
   \<and> (\<not> is_RuntimeError e \<longrightarrow>
      dunder_del (Some e) s = (Some e, s\<lparr>trace := trace s @ [Clear_clipboard]\<rparr>))"
  by (simp add: dunder_del_def Let_def call_backend_def)

theorem teardown_catches_RuntimeError_witness:
  "dunder_del (Some RuntimeError) (init_state False) =
     (None, (init_state False)\<lparr>trace := [Clear_clipboard],
                               log := [Debug_failed_to_clear_clipboard RuntimeError]\<rparr>)
   \<and> dunder_del (Some TypeError) (init_state False) =
     (Some TypeError, (init_state False)\<lparr>trace := [Clear_clipboard]\<rparr>)"
  using teardown_catches_RuntimeError [of RuntimeError "init_state False"]
        teardown_catches_RuntimeError [of TypeError "init_state False"]
  by (simp add: init_state_def)

text \<open>
  The claim as stated fails for an exception that is not a \<open>RuntimeError\<close>: an
  \<open>OSError\<close> from the clipboard helper leaves \<open>__del__\<close>, and nothing is logged.
\<close>

theorem teardown_OSError_escapes:
  "fst (dunder_del (Some OSError) (init_state False)) = Some OSError
   \<and> log (snd (dunder_del (Some OSError) (init_state False))) = []"
  by (simp add: dunder_del_def Let_def call_backend_def init_state_def)

subsection \<open>Switching to an unknown application\<close>

text \<open>
  Claim C4. For an id that is not a key of the registry (\<open>None\<close> included),
  \<open>switch_to_application\<close> raises the \<open>ValueError\<close> "No open application with id ..."
  and the state is the one before the call: the active pointer, the registry and the
  record of backend calls are unchanged.
\<close>

theorem switch_to_unknown_application:
  "(\<forall>k. app_id = Some k \<longrightarrow> apps s k = None) \<Longrightarrow>
   switch_to_application desk app_id s = (Inl (no_open_application app_id), s)"
  by (auto simp: switch_to_application_def split: option.splits)

theorem switch_to_unknown_application_witness:
  "apps (init_state False) 7 = None
   \<and> switch_to_application sample_desktop (Some 7) (init_state False) =
       (Inl (no_open_application (Some 7)), init_state False)"
proof -
  have h: "\<forall>k. Some (7::int) = Some k \<longrightarrow> apps (init_state False) k = None"
    by (simp add: init_state_def)
  show ?thesis
    using h switch_to_unknown_application [OF h, of sample_desktop] by simp
qed

subsection \<open>Rectangles and centers\<close>

lemma is_digit_char_of: "0 \<le> d \<Longrightarrow> d < 10 \<Longrightarrow> is_digit (char_of (48 + d :: int))"
  by (simp add: is_digit_def of_char_of)

lemma of_char_digit: "0 \<le> d \<Longrightarrow> d < 10 \<Longrightarrow> (of_char (char_of (48 + d :: int)) :: int) = 48 + d"
  by (simp add: of_char_of)

lemma str_nat_digits: "0 \<le> n \<Longrightarrow> (\<forall>c\<in>set (str_nat n). is_digit c) \<and> str_nat n \<noteq> []"
proof (induction n rule: str_nat.induct)
  case (1 n)
  show ?case
  proof (cases "n < 10")
    case True
    with 1(2) show ?thesis
      by (subst str_nat.simps, subst str_nat.simps) (simp add: is_digit_char_of)
  next
    case False
    then have "0 \<le> n div 10" by simp
    with 1(1) False have ih: "(\<forall>c\<in>set (str_nat (n div 10)). is_digit c)" by simp
    have "is_digit (char_of (48 + n mod 10))" by (rule is_digit_char_of) simp_all
    with ih False show ?thesis
      by (subst str_nat.simps, subst (2) str_nat.simps) simp
  qed
qed

lemma int_of_digits_snoc: "int_of_digits (ds @ [c]) = 10 * int_of_digits ds + (of_char c - 48)"
  by (simp add: int_of_digits_def)

lemma int_of_digits_str_nat: "0 \<le> n \<Longrightarrow> int_of_digits (str_nat n) = n"
proof (induction n rule: str_nat.induct)
  case (1 n)
  show ?case
  proof (cases "n < 10")
    case True
    with 1(2) show ?thesis
      by (subst str_nat.simps) (simp add: int_of_digits_def of_char_digit)
  next
    case False
    then have "0 \<le> n div 10" by simp
    with 1(1) False have ih: "int_of_digits (str_nat (n div 10)) = n div 10" by simp
    have d: "(of_char (char_of (48 + n mod 10)) :: int) = 48 + n mod 10"
      by (rule of_char_digit) simp_all
    from False ih d show ?thesis
      by (subst str_nat.simps) (simp add: int_of_digits_snoc)
  qed
qed

lemma takeWhile_digits:
  "\<forall>c\<in>set ds. is_digit c \<Longrightarrow> rest = [] \<or> \<not> is_digit (hd rest) \<Longrightarrow>
   takeWhile is_digit (ds @ rest) = ds \<and> dropWhile is_digit (ds @ rest) = rest"
  by (cases rest) simp_all

lemma tagged_digits_at:
  "ds \<noteq> [] \<Longrightarrow> \<forall>c\<in>set ds. is_digit c \<Longrightarrow> rest = [] \<or> \<not> is_digit (hd rest) \<Longrightarrow>
   tagged_digits tag k (tag # ds @ rest) = k ds rest"
  using takeWhile_digits [of ds rest] by (simp add: tagged_digits_def)

lemma greedy_any_no_tag:
  "tag \<notin> set s \<Longrightarrow> greedy_any (tagged_digits tag k) s = None"
  by (induction s) (auto simp: tagged_digits_def)

lemma greedy_any_skip:
  "CHR 0x0A \<notin> set pre \<Longrightarrow> greedy_any k s = Some r \<Longrightarrow> greedy_any k (pre @ s) = Some r"
  by (induction pre) auto

lemma greedy_any_tagged:
  assumes "CHR 0x0A \<notin> set pre" and "tag \<noteq> CHR 0x0A"
    and "tag \<notin> set ds" and "tag \<notin> set rest"
    and "ds \<noteq> []" and "\<forall>c\<in>set ds. is_digit c" and "rest = [] \<or> \<not> is_digit (hd rest)"
    and "k ds rest = Some r"
  shows "greedy_any (tagged_digits tag k) (pre @ tag # ds @ rest) = Some r"
proof -
  have "greedy_any (tagged_digits tag k) (ds @ rest) = None"
    using assms(3,4) by (intro greedy_any_no_tag) simp
  moreover have "tagged_digits tag k (tag # ds @ rest) = Some r"
    using assms(5-8) by (simp add: tagged_digits_at)
  ultimately have "greedy_any (tagged_digits tag k) (tag # ds @ rest) = Some r"
    using assms(2) by simp
  with assms(1) show ?thesis by (rule greedy_any_skip)
qed

lemma digit_not_tag:
  "is_digit c \<Longrightarrow> c \<noteq> CHR ''T'' \<and> c \<noteq> CHR ''R'' \<and> c \<noteq> CHR ''B''"
  by (auto simp: is_digit_def)

lemma match_rectangle_digits:
  assumes l: "dl \<noteq> []" "\<forall>c\<in>set dl. is_digit c"
    and t: "dt \<noteq> []" "\<forall>c\<in>set dt. is_digit c"
    and r: "dr \<noteq> []" "\<forall>c\<in>set dr. is_digit c"
    and b: "db \<noteq> []" "\<forall>c\<in>set db. is_digit c"
  shows "match_rectangle (''(L'' @ dl @ '', T'' @ dt @ '', R'' @ dr @ '', B'' @ db @ '')'') =
         Some (dl, dt, dr, db)"
proof -
  let ?kb = "\<lambda>l t r. tagged_digits CHR ''B'' (\<lambda>b rest.
      case rest of [] \<Rightarrow> None
      | d # _ \<Rightarrow> if d = CHR '')'' then Some (l, t, r, b) else None)"
  let ?kr = "\<lambda>l t. tagged_digits CHR ''R'' (\<lambda>r. greedy_any (?kb l t r))"
  let ?kt = "\<lambda>l. tagged_digits CHR ''T'' (\<lambda>t. greedy_any (?kr l t))"
  have nd: "\<not> is_digit CHR '',''" "\<not> is_digit CHR '')''"
    by (simp_all add: is_digit_def)
  have step_b: "greedy_any (?kb dl dt dr) ('', '' @ CHR ''B'' # db @ '')'') = Some (dl, dt, dr, db)"
    using b digit_not_tag by (intro greedy_any_tagged) (auto simp: nd)
  have step_r: "greedy_any (?kr dl dt) ('', '' @ CHR ''R'' # dr @ '', B'' @ db @ '')'') =
      Some (dl, dt, dr, db)"
    using r b digit_not_tag step_b by (intro greedy_any_tagged) (auto simp: nd)
  have step_t: "greedy_any (?kt dl) ('', '' @ CHR ''T'' # dt @ '', R'' @ dr @ '', B'' @ db @ '')'') =
      Some (dl, dt, dr, db)"
    using t r b digit_not_tag step_r by (intro greedy_any_tagged) (auto simp: nd)
  have "tagged_digits CHR ''L'' (\<lambda>l. greedy_any (?kt l))
          (CHR ''L'' # dl @ ('', T'' @ dt @ '', R'' @ dr @ '', B'' @ db @ '')'')) =
        greedy_any (?kt dl) ('', T'' @ dt @ '', R'' @ dr @ '', B'' @ db @ '')'')"
    using l by (intro tagged_digits_at) (auto simp: nd)
  with step_t show ?thesis
    by (simp add: match_rectangle_def)
qed

lemma get_element_coordinates_rect_string:
  assumes "0 \<le> l" "0 \<le> t" "0 \<le> r" "0 \<le> b"
  shows "get_element_coordinates (rect_string l t r b) = Inr (l, t, r, b)"
  using assms match_rectangle_digits [of "str_nat l" "str_nat t" "str_nat r" "str_nat b"]
    str_nat_digits [of l] str_nat_digits [of t] str_nat_digits [of r] str_nat_digits [of b]
  by (simp add: get_element_coordinates_def rect_string_def int_of_digits_str_nat)

lemma bit_length_le: "0 \<le> a \<Longrightarrow> a < 2 ^ k \<Longrightarrow> bit_length a \<le> k"
proof (induction k arbitrary: a)
  case 0
  then have "a = 0" by simp
  then show ?case by (simp add: bit_length.simps)
next
  case (Suc k)
  show ?case
  proof (cases "a \<le> 0")
    case True
    then show ?thesis by (simp add: bit_length.simps)
  next
    case False
    from Suc.prems have "0 \<le> a div 2" "a div 2 < 2 ^ k" by simp_all
    then have "bit_length (a div 2) \<le> k" by (rule Suc.IH)
    with False show ?thesis by (subst bit_length.simps) simp
  qed
qed

lemma int_half_exact:
  assumes "\<bar>n\<bar> < 2 ^ 53"
  shows "int_half n = Inr (if n < 0 then - (\<bar>n\<bar> div 2) else n div 2)"
proof -
  have "bit_length \<bar>n\<bar> \<le> 53" using assms by (intro bit_length_le) simp_all
  then have fr: "float_round \<bar>n\<bar> = \<bar>n\<bar>" by (simp add: float_round_def)
  have "\<bar>n\<bar> div 2 \<le> \<bar>n\<bar>" by simp
  also have "\<bar>n\<bar> < 2 ^ 53" by (rule assms)
  also have "(2::int) ^ 53 \<le> 2 ^ 1024" by (rule power_increasing) simp_all
  finally have "\<not> 2 ^ 1024 \<le> \<bar>n\<bar> div 2" by simp
  with fr show ?thesis by (simp add: int_half_def)
qed

text \<open>
  Claim C8, as the code has it. A rectangle string of the form
  \<open>(L<l>, T<t>, R<r>, B<b>)\<close> parses to \<open>left = l\<close>, \<open>top = t\<close>, \<open>right = r\<close>,
  \<open>bottom = b\<close>. With the two differences below \<open>2^53\<close> in absolute value, the center
  is \<open>left\<close> plus half of \<open>right - left\<close> and \<open>top\<close> plus half of \<open>bottom - top\<close>, each
  half with its fraction dropped towards zero; for \<open>left \<le> right\<close> and \<open>top \<le> bottom\<close>
  that is \<open>(left + floor((right - left) / 2), top + floor((bottom - top) / 2))\<close>. The string
  \<open>(L10, T20, R110, B220)\<close> parses to 10, 20, 110, 220 and has the center \<open>(60, 120)\<close>.
\<close>

theorem rectangle_center:
  assumes "0 \<le> l" and "0 \<le> t" and "0 \<le> r" and "0 \<le> b"
  shows "get_element_coordinates (rect_string l t r b) = Inr (l, t, r, b)
    \<and> (\<bar>r - l\<bar> < 2 ^ 53 \<and> \<bar>b - t\<bar> < 2 ^ 53 \<longrightarrow>
         get_element_center [''rectangle'' \<mapsto> rect_string l t r b] =
           Inr (l + (if r < l then - ((l - r) div 2) else (r - l) div 2),
                t + (if b < t then - ((t - b) div 2) else (b - t) div 2)))
    \<and> (l \<le> r \<and> r - l < 2 ^ 53 \<and> t \<le> b \<and> b - t < 2 ^ 53 \<longrightarrow>
         get_element_center [''rectangle'' \<mapsto> rect_string l t r b] =
           Inr (l + (r - l) div 2, t + (b - t) div 2))"
proof -
  have coords: "get_element_coordinates (rect_string l t r b) = Inr (l, t, r, b)"
    using assms by (rule get_element_coordinates_rect_string)
  have center: "get_element_center [''rectangle'' \<mapsto> rect_string l t r b] =
      Inr (l + (if r < l then - ((l - r) div 2) else (r - l) div 2),
           t + (if b < t then - ((t - b) div 2) else (b - t) div 2))"
    if "\<bar>r - l\<bar> < 2 ^ 53" and "\<bar>b - t\<bar> < 2 ^ 53"
  proof -
    have hx: "int_half (r - l) = Inr (if r < l then - ((l - r) div 2) else (r - l) div 2)"
      using int_half_exact [OF that(1)] by (simp add: abs_if)
    have hy: "int_half (b - t) = Inr (if b < t then - ((t - b) div 2) else (b - t) div 2)"
      using int_half_exact [OF that(2)] by (simp add: abs_if)
    show ?thesis
      by (simp add: get_element_center_def coords hx hy)
  qed
  have "get_element_center [''rectangle'' \<mapsto> rect_string l t r b] =
      Inr (l + (r - l) div 2, t + (b - t) div 2)"
    if "l \<le> r" "r - l < 2 ^ 53" "t \<le> b" "b - t < 2 ^ 53"
    using center that by simp
  with coords center show ?thesis by blast
qed

theorem rectangle_center_witness:
  "rect_string 10 20 110 220 = ''(L10, T20, R110, B220)''
   \<and> get_element_coordinates ''(L10, T20, R110, B220)'' = Inr (10, 20, 110, 220)
   \<and> get_element_center [''rectangle'' \<mapsto> ''(L10, T20, R110, B220)''] = Inr (60, 120)
   \<and> get_element_center [''rectangle'' \<mapsto> rect_string 10 20 7 220] = Inr (9, 120)"
proof -
  have s: "rect_string 10 20 110 220 = ''(L10, T20, R110, B220)''"
    by code_simp
  show ?thesis
    using rectangle_center [of 10 20 110 220] rectangle_center [of 10 20 7 220]
    by (simp add: s)
qed

text \<open>
  The claim as stated fails for a rectangle string whose right edge is left of its left
  edge by an odd amount: the code drops the fraction of \<open>-1.5\<close> towards zero and returns
  \<open>x = 9\<close>, where the floor would give \<open>x = 8\<close>.
\<close>

theorem rectangle_center_truncates:
  "get_element_center [''rectangle'' \<mapsto> ''(L10, T20, R7, B220)''] = Inr (9, 120)
   \<and> (10::int) + (7 - 10) div 2 = 8"
  by code_simp

subsection \<open>The registry along a history\<close>

lemma call_backend_fields [simp]:
  "apps (call_backend ev s) = apps s"
  "app_instance_id (call_backend ev s) = app_instance_id s"
  "active_app_instance (call_backend ev s) = active_app_instance s"
  "app (call_backend ev s) = app s"
  "dlg (call_backend ev s) = dlg s"
  "windowtitle (call_backend ev s) = windowtitle s"
  "images_dir_exists (call_backend ev s) = images_dir_exists s"
  "log (call_backend ev s) = log s"
  "trace (call_backend ev s) = trace s @ [ev]"
  by (simp_all add: call_backend_def)

lemma registry_ok_ids:
  "registry_ok s =
     ((\<forall>k i. session_ids s k = Some i \<longrightarrow> i = k \<and> 1 \<le> k \<and> k \<le> app_instance_id s)
      \<and> (active_app_instance s = - 1 \<or> session_ids s (active_app_instance s) \<noteq> None)
      \<and> 0 \<le> app_instance_id s)"
  by (auto simp: registry_ok_def session_ids_def)

lemma registry_ok_init: "registry_ok (init_state images)"
  by (simp add: registry_ok_def init_state_def)

lemma registry_ok_moved:
  assumes "registry_ok s" and "session_ids s' = session_ids s"
    and "app_instance_id s' = app_instance_id s"
    and "active_app_instance s' = active_app_instance s \<or> active_app_instance s' = - 1
         \<or> session_ids s (active_app_instance s') \<noteq> None"
  shows "registry_ok s'"
  using assms unfolding registry_ok_ids by auto

lemma kept_refl [simp]: "kept s s"
  by (simp add: kept_def)

lemma kept_trans: "kept s s1 \<Longrightarrow> kept s1 s2 \<Longrightarrow> kept s s2"
  by (simp add: kept_def)

lemma kept_ok: "kept s s' \<Longrightarrow> registry_ok s \<Longrightarrow> registry_ok s'"
  using registry_ok_moved [of s s'] by (simp add: kept_def)

lemma kept_call_backend [simp]: "kept s (call_backend ev s)"
  by (simp add: kept_def session_ids_def)

lemma connect_by_handle_kept: "connect_by_handle h s = (r, s') \<Longrightarrow> kept s s'"
  by (auto simp: connect_by_handle_def kept_def session_ids_def fun_eq_iff Let_def
      split: option.splits)

lemma open_dialog_kept: "open_dialog desk w hl s = (r, s') \<Longrightarrow> kept s s'"
  by (auto simp: open_dialog_def connect_by_handle_def kept_def session_ids_def fun_eq_iff Let_def
      split: option.splits if_splits)

lemma open_dialog_returns:
  "apps s (active_app_instance s) \<noteq> None \<Longrightarrow> fst (open_dialog desk w hl s) = Inr ()"
  by (auto simp: open_dialog_def connect_by_handle_def Let_def split: option.splits)

lemma minimize_dialog_kept: "minimize_dialog desk w s = (r, s') \<Longrightarrow> kept s s'"
  by (auto simp: minimize_dialog_def kept_def session_ids_def)

lemma restore_dialog_kept: "restore_dialog desk w s = (r, s') \<Longrightarrow> kept s s'"
  by (auto simp: restore_dialog_def kept_def session_ids_def)

lemma send_keys_kept: "send_keys k s = (r, s') \<Longrightarrow> kept s s'"
  by (auto simp: send_keys_def)

lemma send_keys_to_input_kept: "send_keys_to_input k e s = (r, s') \<Longrightarrow> kept s s'"
  by (auto simp: send_keys_to_input_def Let_def kept_def session_ids_def)

lemma type_keys_kept: "type_keys k s = (r, s') \<Longrightarrow> kept s s'"
  by (auto simp: type_keys_def split: option.splits)

lemma menu_select_kept: "menu_select m s = (r, s') \<Longrightarrow> kept s s'"
  by (auto simp: menu_select_def split: option.splits sum.splits)

lemma click_type_kept: "click_type x y c s = (r, s') \<Longrightarrow> kept s s'"
  by (auto simp: click_type_def split: option.splits sum.splits if_splits)

lemma mouse_click_coords_kept: "mouse_click_coords x y c s = (r, s') \<Longrightarrow> kept s s'"
  by (simp add: mouse_click_coords_def click_type_kept)

lemma screenshot_element_kept: "screenshot_element el s = (r, s') \<Longrightarrow> kept s s'"
  by (auto simp: screenshot_element_def kept_def session_ids_def
      split: option.splits sum.splits if_splits)

lemma mouse_click_locator_kept:
  assumes "mouse_click_locator desk l ox oy c sc s = (r, s')"
  shows "kept s s'"
proof -
  have k0: "kept s (call_backend Dlg_wait s)" by simp
  show ?thesis
    using assms
    by (auto simp: mouse_click_locator_def Let_def
        split: option.splits sum.splits prod.splits list.splits if_splits
        dest!: open_dialog_kept screenshot_element_kept click_type_kept
        intro: kept_trans [OF k0] kept_trans)
qed

lemma mouse_click_kept: "mouse_click desk l x y ox oy m c sc s = (r, s') \<Longrightarrow> kept s s'"
  by (auto simp: mouse_click_def split: if_splits prod.splits sum.splits
      dest: mouse_click_locator_kept mouse_click_coords_kept)

lemma open_dialog_result:
  "open_dialog desk w hl s = (r, s') \<Longrightarrow>
   kept s s' \<and> (apps s (active_app_instance s) \<noteq> None \<longrightarrow> r = Inr ())"
  using open_dialog_kept [of desk w hl s r s'] open_dialog_returns [of s desk w hl]
  by auto

lemma merge_params_id [simp]: "s_id (merge_params e ps) = s_id e"
  by (simp add: merge_params_def)

lemma add_app_instance_result:
  assumes "add_app_instance desk a d ps s = (r, s')"
  shows "r = Inr (app_instance_id s + 1)
    \<and> app_instance_id s' = app_instance_id s + 1
    \<and> active_app_instance s' = app_instance_id s + 1
    \<and> session_ids s' = (session_ids s)(app_instance_id s + 1 \<mapsto> app_instance_id s + 1)"
proof -
  define n where "n = app_instance_id s + 1"
  define s2 where
    "s2 = (case a of None \<Rightarrow> s\<lparr>app_instance_id := n\<rparr>
           | Some x \<Rightarrow> s\<lparr>app_instance_id := n, app := Some x\<rparr>)"
  define dflt where
    "dflt = \<lparr>s_app = (case a of None \<Rightarrow> app s | Some x \<Rightarrow> Some x), s_id = n,
             s_dispatched = False, s_executable = None, s_windowtitle = None, s_dlg = None\<rparr>"
  define entry where
    "entry = (case ps of None \<Rightarrow> dflt
              | Some p \<Rightarrow> if truthy_params ps then merge_params dflt p else dflt)"
  define s4 where
    "s4 = s2\<lparr>apps := (apps s2)(n \<mapsto> entry), active_app_instance := n\<rparr>"
  have s2: "app_instance_id s2 = n" "apps s2 = apps s"
    by (simp_all add: s2_def split: option.splits)
  have entry: "s_id entry = n"
    by (simp add: entry_def dflt_def split: option.splits)
  have s4: "app_instance_id s4 = n" "active_app_instance s4 = n" "apps s4 n = Some entry"
    "session_ids s4 = (session_ids s)(n \<mapsto> n)"
    by (simp_all add: s4_def s2 entry session_ids_def fun_eq_iff)
  have unfolded: "add_app_instance desk a d ps s =
      (if d then (case open_dialog desk (s_windowtitle entry) False s4 of
                    (Inl e, s5) \<Rightarrow> (Inl e, s5)
                  | (Inr u, s5) \<Rightarrow> (Inr (active_app_instance s5), s5))
       else (Inr (active_app_instance s4), s4))"
    by (cases a; cases ps)
       (simp_all add: add_app_instance_def Let_def s4_def s2_def entry_def dflt_def n_def)
  show ?thesis
  proof (cases d)
    case False
    with assms unfolded s4 show ?thesis by (auto simp: n_def)
  next
    case True
    obtain r5 s5 where od: "open_dialog desk (s_windowtitle entry) False s4 = (r5, s5)"
      by (cases "open_dialog desk (s_windowtitle entry) False s4")
    from open_dialog_result [OF od] s4 have "kept s4 s5" and "r5 = Inr ()" by simp_all
    with assms unfolded True od s4 show ?thesis by (auto simp: kept_def n_def)
  qed
qed

lemma registry_ok_added:
  assumes "registry_ok s"
    and "app_instance_id s' = app_instance_id s + 1"
    and "active_app_instance s' = app_instance_id s + 1"
    and "session_ids s' = (session_ids s)(app_instance_id s + 1 \<mapsto> app_instance_id s + 1)"
  shows "registry_ok s'"
proof -
  have old: "i = k \<and> 1 \<le> k \<and> k \<le> app_instance_id s" if "session_ids s k = Some i" for k i
    using assms(1) that unfolding registry_ok_ids by blast
  have pos: "0 \<le> app_instance_id s"
    using assms(1) unfolding registry_ok_ids by blast
  have "i = k \<and> 1 \<le> k \<and> k \<le> app_instance_id s'" if "session_ids s' k = Some i" for k i
  proof (cases "k = app_instance_id s + 1")
    case True
    with that assms(2,4) pos show ?thesis by simp
  next
    case False
    with that assms(4) have "session_ids s k = Some i" by simp
    from old [OF this] assms(2) show ?thesis by simp
  qed
  moreover have "session_ids s' (active_app_instance s') \<noteq> None"
    using assms(3,4) by simp
  moreover have "0 \<le> app_instance_id s'"
    using assms(2) pos by simp
  ultimately show ?thesis unfolding registry_ok_ids by blast
qed

lemma switch_to_application_moves:
  assumes "switch_to_application desk i s = (r, s')"
  shows "session_ids s' = session_ids s" and "app_instance_id s' = app_instance_id s"
    and "active_app_instance s' = active_app_instance s
         \<or> session_ids s (active_app_instance s') \<noteq> None"
  using assms
  by (auto simp: switch_to_application_def Let_def get_app_def kept_def session_ids_def
      split: option.splits sum.splits prod.splits if_splits
      dest!: open_dialog_kept restore_dialog_kept)

lemma quit_moves:
  assumes "quit i s = (r, s')"
  shows "session_ids s' = session_ids s" and "app_instance_id s' = app_instance_id s"
    and "active_app_instance s' = active_app_instance s \<or> active_app_instance s' = - 1"
  using assms
  by (auto simp: quit_def Let_def get_app_def session_ids_def fun_eq_iff
      split: option.splits sum.splits if_splits)

lemma quit_each_moves:
  "quit_each ks s = (r, s') \<Longrightarrow>
   session_ids s' = session_ids s \<and> app_instance_id s' = app_instance_id s
   \<and> (active_app_instance s' = active_app_instance s \<or> active_app_instance s' = - 1)"
proof (induction ks arbitrary: s)
  case Nil
  then show ?case by simp
next
  case (Cons k ks)
  obtain r1 s1 where q: "quit (Some k) s = (r1, s1)" by (cases "quit (Some k) s")
  note m = quit_moves [OF q]
  show ?case
  proof (cases r1)
    case (Inl e)
    with Cons.prems q m show ?thesis by simp
  next
    case (Inr u)
    with Cons.prems q have "quit_each ks s1 = (r, s')" by simp
    from Cons.IH [OF this] m show ?thesis by auto
  qed
qed

lemma close_all_applications_moves:
  "close_all_applications s = (r, s') \<Longrightarrow>
   session_ids s' = session_ids s \<and> app_instance_id s' = app_instance_id s
   \<and> (active_app_instance s' = active_app_instance s \<or> active_app_instance s' = - 1)"
  unfolding close_all_applications_def by (rule quit_each_moves)

lemma open_application_result:
  assumes "open_application desk x s = (r, s')"
  shows "r = Inr (app_instance_id s + 1)
    \<and> app_instance_id s' = app_instance_id s + 1
    \<and> active_app_instance s' = app_instance_id s + 1
    \<and> session_ids s' = (session_ids s)(app_instance_id s + 1 \<mapsto> app_instance_id s + 1)"
  using add_app_instance_result [OF assms [unfolded open_application_def]] .

lemma open_executable_result:
  assumes "open_executable desk e w s = (r, s')"
  shows "r = Inr (app_instance_id s + 1)
    \<and> app_instance_id s' = app_instance_id s + 1
    \<and> active_app_instance s' = app_instance_id s + 1
    \<and> session_ids s' = (session_ids s)(app_instance_id s + 1 \<mapsto> app_instance_id s + 1)"
  using add_app_instance_result [OF assms [unfolded open_executable_def]]
  by (simp add: session_ids_def)

lemma open_using_run_dialog_result:
  assumes "open_using_run_dialog desk e w s = (r, s')"
  shows "r = Inr (app_instance_id s + 1)
    \<and> app_instance_id s' = app_instance_id s + 1
    \<and> active_app_instance s' = app_instance_id s + 1
    \<and> session_ids s' = (session_ids s)(app_instance_id s + 1 \<mapsto> app_instance_id s + 1)"
  using add_app_instance_result [OF assms [unfolded open_using_run_dialog_def Let_def]]
  by (simp add: session_ids_def send_keys_def send_keys_to_input_def Let_def)

lemma open_from_search_result:
  assumes "open_from_search desk e w s = (r, s')"
  shows "r = Inr (app_instance_id s + 1)
    \<and> app_instance_id s' = app_instance_id s + 1
    \<and> active_app_instance s' = app_instance_id s + 1
    \<and> session_ids s' = (session_ids s)(app_instance_id s + 1 \<mapsto> app_instance_id s + 1)"
  using add_app_instance_result [OF assms [unfolded open_from_search_def Let_def]]
  by (simp add: session_ids_def send_keys_def send_keys_to_input_def Let_def)

lemma assigned_Some:
  "assigned (f, s1) = (r, s') \<Longrightarrow> f = Inr i \<Longrightarrow> r = Inr (Some i) \<and> s' = s1"
  by (auto simp: assigned_def)

lemma forget_not_Some: "forget x = (r, s') \<Longrightarrow> r \<noteq> Inr (Some i) \<and> s' = snd x"
  by (auto simp: forget_def split: prod.splits sum.splits)

text \<open>A registering call returns the incremented counter and makes it the active key.\<close>

lemma exec_registration:
  assumes "exec desk c s = (r, s')" and "is_registration c"
  shows "r = Inr (Some (app_instance_id s + 1))
    \<and> app_instance_id s' = app_instance_id s + 1
    \<and> active_app_instance s' = app_instance_id s + 1
    \<and> session_ids s' = (session_ids s)(app_instance_id s + 1 \<mapsto> app_instance_id s + 1)"
proof (cases c)
  case (Call_add_app_instance a d ps)
  obtain f s1 where e: "add_app_instance desk a d ps s = (f, s1)"
    by (cases "add_app_instance desk a d ps s")
  from add_app_instance_result [OF e] assms(1) Call_add_app_instance e show ?thesis
    by (auto simp: assigned_def)
next
  case (Call_open_application x)
  obtain f s1 where e: "open_application desk x s = (f, s1)"
    by (cases "open_application desk x s")
  from open_application_result [OF e] assms(1) Call_open_application e show ?thesis
    by (auto simp: assigned_def)
next
  case (Call_open_executable x w)
  obtain f s1 where e: "open_executable desk x w s = (f, s1)"
    by (cases "open_executable desk x w s")
  from open_executable_result [OF e] assms(1) Call_open_executable e show ?thesis
    by (auto simp: assigned_def)
next
  case (Call_open_using_run_dialog x w)
  obtain f s1 where e: "open_using_run_dialog desk x w s = (f, s1)"
    by (cases "open_using_run_dialog desk x w s")
  from open_using_run_dialog_result [OF e] assms(1) Call_open_using_run_dialog e show ?thesis
    by (auto simp: assigned_def)
next
  case (Call_open_from_search x w)
  obtain f s1 where e: "open_from_search desk x w s = (f, s1)"
    by (cases "open_from_search desk x w s")
  from open_from_search_result [OF e] assms(1) Call_open_from_search e show ?thesis
    by (auto simp: assigned_def)
qed (use assms(2) in simp_all)

text \<open>
  Any other call returns no instance id and leaves keys, ids and counter as they are; the
  active pointer stays, becomes \<open>-1\<close>, or moves to a key of the registry.
\<close>

lemma exec_other:
  assumes "exec desk c s = (r, s')" and "\<not> is_registration c"
  shows "(\<forall>i. r \<noteq> Inr (Some i))
    \<and> session_ids s' = session_ids s \<and> app_instance_id s' = app_instance_id s
    \<and> (active_app_instance s' = active_app_instance s \<or> active_app_instance s' = - 1
        \<or> session_ids s (active_app_instance s') \<noteq> None)"
proof -
  have k: "?thesis" if "exec desk c s = forget (f, s1)" and "kept s s1" for f :: "exn + 'a" and s1
    using that assms(1) by (auto simp: forget_def kept_def split: sum.splits)
  show ?thesis
  proof (cases c)
    case (Call_switch_to_application i)
    obtain f s1 where e: "switch_to_application desk i s = (f, s1)"
      by (cases "switch_to_application desk i s")
    from switch_to_application_moves [OF e] assms(1) Call_switch_to_application e show ?thesis
      by (auto simp: forget_def split: sum.splits)
  next
    case (Call_quit i)
    obtain f s1 where e: "quit i s = (f, s1)" by (cases "quit i s")
    from quit_moves [OF e] assms(1) Call_quit e show ?thesis
      by (auto simp: forget_def split: sum.splits)
  next
    case Call_close_all_applications
    obtain f s1 where e: "close_all_applications s = (f, s1)"
      by (cases "close_all_applications s")
    from close_all_applications_moves [OF e] assms(1) Call_close_all_applications e show ?thesis
      by (auto simp: forget_def split: sum.splits)
  next
    case (Call_open_dialog w h)
    obtain f s1 where e: "open_dialog desk w h s = (f, s1)" by (cases "open_dialog desk w h s")
    show ?thesis by (rule k [of f s1]) (simp_all add: Call_open_dialog e open_dialog_kept [OF e])
  next
    case (Call_connect_by_handle h)
    obtain f s1 where e: "connect_by_handle h s = (f, s1)" by (cases "connect_by_handle h s")
    show ?thesis
      by (rule k [of f s1]) (simp_all add: Call_connect_by_handle e connect_by_handle_kept [OF e])
  next
    case (Call_minimize_dialog w)
    obtain f s1 where e: "minimize_dialog desk w s = (f, s1)" by (cases "minimize_dialog desk w s")
    show ?thesis
      by (rule k [of f s1]) (simp_all add: Call_minimize_dialog e minimize_dialog_kept [OF e])
  next
    case (Call_restore_dialog w)
    obtain f s1 where e: "restore_dialog desk w s = (f, s1)" by (cases "restore_dialog desk w s")
    show ?thesis
      by (rule k [of f s1]) (simp_all add: Call_restore_dialog e restore_dialog_kept [OF e])
  next
    case (Call_send_keys x)
    obtain f s1 where e: "send_keys x s = (f, s1)" by (cases "send_keys x s")
    show ?thesis by (rule k [of f s1]) (simp_all add: Call_send_keys e send_keys_kept [OF e])
  next
    case (Call_send_keys_to_input x b)
    obtain f s1 where e: "send_keys_to_input x b s = (f, s1)" by (cases "send_keys_to_input x b s")
    show ?thesis
      by (rule k [of f s1]) (simp_all add: Call_send_keys_to_input e send_keys_to_input_kept [OF e])
  next
    case (Call_type_keys x)
    obtain f s1 where e: "type_keys x s = (f, s1)" by (cases "type_keys x s")
    show ?thesis by (rule k [of f s1]) (simp_all add: Call_type_keys e type_keys_kept [OF e])
  next
    case (Call_menu_select x)
    obtain f s1 where e: "menu_select x s = (f, s1)" by (cases "menu_select x s")
    show ?thesis by (rule k [of f s1]) (simp_all add: Call_menu_select e menu_select_kept [OF e])
  next
    case (Call_click_type x y ct)
    obtain f s1 where e: "click_type x y ct s = (f, s1)" by (cases "click_type x y ct s")
    show ?thesis by (rule k [of f s1]) (simp_all add: Call_click_type e click_type_kept [OF e])
  next
    case (Call_mouse_click_coords x y ct)
    obtain f s1 where e: "mouse_click_coords x y ct s = (f, s1)"
      by (cases "mouse_click_coords x y ct s")
    show ?thesis
      by (rule k [of f s1]) (simp_all add: Call_mouse_click_coords e mouse_click_coords_kept [OF e])
  next
    case (Call_mouse_click_locator l ox oy ct sc)
    obtain f s1 where e: "mouse_click_locator desk l ox oy ct sc s = (f, s1)"
      by (cases "mouse_click_locator desk l ox oy ct sc s")
    show ?thesis
      by (rule k [of f s1])
         (simp_all add: Call_mouse_click_locator e mouse_click_locator_kept [OF e])
  next
    case (Call_mouse_click l x y ox oy m ct sc)
    obtain f s1 where e: "mouse_click desk l x y ox oy m ct sc s = (f, s1)"
      by (cases "mouse_click desk l x y ox oy m ct sc s")
    show ?thesis
      by (rule k [of f s1]) (simp_all add: Call_mouse_click e mouse_click_kept [OF e])
  qed (use assms(2) in simp_all)
qed

lemma exec_ok:
  assumes "exec desk c s = (r, s')" and "registry_ok s"
  shows "registry_ok s'"
proof (cases "is_registration c")
  case True
  from exec_registration [OF assms(1) True] assms(2) show ?thesis
    by (intro registry_ok_added [of s s']) simp_all
next
  case False
  from exec_other [OF assms(1) False] assms(2) show ?thesis
    by (intro registry_ok_moved [of s s']) simp_all
qed

lemma exec_counter:
  assumes "exec desk c s = (r, s')"
  shows "app_instance_id s \<le> app_instance_id s'"
  using exec_registration [OF assms] exec_other [OF assms] by (cases "is_registration c") simp_all

lemma run_ok: "registry_ok s \<Longrightarrow> registry_ok (run cs s)"
proof (induction cs arbitrary: s)
  case Nil
  then show ?case by simp
next
  case (Cons dc cs)
  obtain desk c where dc: "dc = (desk, c)" by (cases dc)
  obtain r s1 where e: "exec desk c s = (r, s1)" by (cases "exec desk c s")
  from exec_ok [OF e Cons.prems] have "registry_ok s1" .
  from Cons.IH [OF this] dc e show ?case by simp
qed

lemma assigned_ids_above:
  "i \<in> set (assigned_ids cs s) \<Longrightarrow> app_instance_id s < i"
proof (induction cs arbitrary: s)
  case Nil
  then show ?case by simp
next
  case (Cons dc cs)
  obtain desk c where dc: "dc = (desk, c)" by (cases dc)
  obtain r s1 where e: "exec desk c s = (r, s1)" by (cases "exec desk c s")
  note cnt = exec_counter [OF e]
  show ?case
  proof (cases "is_registration c")
    case True
    note reg = exec_registration [OF e True]
    with Cons.prems dc e have "i = app_instance_id s + 1 \<or> i \<in> set (assigned_ids cs s1)"
      by auto
    with Cons.IH [of s1] reg show ?thesis by auto
  next
    case False
    from exec_other [OF e False] have "\<forall>j. r \<noteq> Inr (Some j)" by simp
    with Cons.prems dc e have "i \<in> set (assigned_ids cs s1)"
      by (auto split: sum.splits option.splits)
    with Cons.IH [of s1] cnt show ?thesis by auto
  qed
qed

lemma assigned_ids_sorted: "sorted_wrt (<) (assigned_ids cs s)"
proof (induction cs arbitrary: s)
  case Nil
  then show ?case by simp
next
  case (Cons dc cs)
  obtain desk c where dc: "dc = (desk, c)" by (cases dc)
  obtain r s1 where e: "exec desk c s = (r, s1)" by (cases "exec desk c s")
  show ?case
  proof (cases "is_registration c")
    case True
    note reg = exec_registration [OF e True]
    then have "assigned_ids (dc # cs) s = (app_instance_id s + 1) # assigned_ids cs s1"
      using dc e by simp
    moreover have "\<forall>j\<in>set (assigned_ids cs s1). app_instance_id s + 1 < j"
      using assigned_ids_above [of _ cs s1] reg by auto
    ultimately show ?thesis using Cons.IH [of s1] by simp
  next
    case False
    from exec_other [OF e False] have "\<forall>j. r \<noteq> Inr (Some j)" by simp
    then have "assigned_ids (dc # cs) s = assigned_ids cs s1"
      using dc e by (auto split: sum.splits option.splits)
    with Cons.IH [of s1] show ?thesis by simp
  qed
qed

lemma assigned_ids_length:
  "length (assigned_ids cs s) = length (filter (\<lambda>dc. is_registration (snd dc)) cs)"
proof (induction cs arbitrary: s)
  case Nil
  then show ?case by simp
next
  case (Cons dc cs)
  obtain desk c where dc: "dc = (desk, c)" by (cases dc)
  obtain r s1 where e: "exec desk c s = (r, s1)" by (cases "exec desk c s")
  show ?case
  proof (cases "is_registration c")
    case True
    from exec_registration [OF e True] dc e True Cons.IH [of s1] show ?thesis by simp
  next
    case False
    from exec_other [OF e False] have "\<forall>j. r \<noteq> Inr (Some j)" by simp
    then have "assigned_ids (dc # cs) s = assigned_ids cs s1"
      using dc e by (auto split: sum.splits option.splits)
    with Cons.IH [of s1] dc False show ?thesis by simp
  qed
qed

subsection \<open>Instance ids\<close>

text \<open>
  Claim C5. Along every history of calls on a fresh object, the instance ids returned by
  the registering calls are strictly increasing (so no id is returned twice, whatever
  was quit in between), and every registering call returns one. In the state after any
  history the active pointer is \<open>-1\<close> or a key of the registry, and a registering call
  made there returns an id greater than every key of the registry, stores a session
  under it and makes it the active one.
\<close>

theorem instance_ids_increase:
  "sorted_wrt (<) (assigned_ids cs (init_state images))
   \<and> length (assigned_ids cs (init_state images)) =
       length (filter (\<lambda>dc. is_registration (snd dc)) cs)
   \<and> (let s = run cs (init_state images) in
        (active_app_instance s = - 1 \<or> apps s (active_app_instance s) \<noteq> None)
        \<and> (is_registration c \<longrightarrow>
             fst (exec desk c s) = Inr (Some (app_instance_id s + 1))
             \<and> (\<forall>k. apps s k \<noteq> None \<longrightarrow> k < app_instance_id s + 1)
             \<and> active_app_instance (snd (exec desk c s)) = app_instance_id s + 1
             \<and> apps (snd (exec desk c s)) (app_instance_id s + 1) \<noteq> None))"
proof -
  define s where "s = run cs (init_state images)"
  have ok: "registry_ok s"
    unfolding s_def by (intro run_ok registry_ok_init)
  have active: "active_app_instance s = - 1 \<or> apps s (active_app_instance s) \<noteq> None"
    using ok by (simp add: registry_ok_def)
  have below: "k < app_instance_id s + 1" if "apps s k \<noteq> None" for k
    using ok that by (auto simp: registry_ok_def)
  have reg: "fst (exec desk c s) = Inr (Some (app_instance_id s + 1))
      \<and> active_app_instance (snd (exec desk c s)) = app_instance_id s + 1
      \<and> apps (snd (exec desk c s)) (app_instance_id s + 1) \<noteq> None"
    if "is_registration c"
  proof -
    obtain r s' where e: "exec desk c s = (r, s')" by (cases "exec desk c s")
    from exec_registration [OF e that] have
      "r = Inr (Some (app_instance_id s + 1))"
      "active_app_instance s' = app_instance_id s + 1"
      "session_ids s' (app_instance_id s + 1) = Some (app_instance_id s + 1)"
      by simp_all
    with e show ?thesis by (auto simp: session_ids_def)
  qed
  from active below reg show ?thesis
    unfolding Let_def s_def [symmetric]
    by (simp add: assigned_ids_sorted assigned_ids_length)
qed

theorem instance_ids_increase_witness:
  "assigned_ids sample_history (init_state False) = [1, 2, 3]
   \<and> sorted_wrt (<) (assigned_ids sample_history (init_state False))
   \<and> active_app_instance (run sample_history (init_state False)) = 3
   \<and> fst (exec sample_desktop (Call_open_application ''Word'')
           (run sample_history (init_state False))) = Inr (Some 4)
   \<and> active_app_instance (snd (exec sample_desktop (Call_open_application ''Word'')
           (run sample_history (init_state False)))) = 4"
proof -
  have ids: "assigned_ids sample_history (init_state False) = [1, 2, 3]"
    by code_simp
  have act: "active_app_instance (run sample_history (init_state False)) = 3"
    by code_simp
  have cnt: "app_instance_id (run sample_history (init_state False)) = 3"
    by code_simp
  show ?thesis
    using instance_ids_increase [of sample_history False "Call_open_application ''Word''"
        sample_desktop]
    by (simp add: ids act cnt Let_def)
qed

subsection \<open>Quitting a session\<close>

text \<open>
  Claim C3, as the code has it. In the state after any history, for every registered
  session id whose application object is still there (not \<open>None\<close>), \<open>quit\<close> on that id
  calls \<open>Quit()\<close> on the object when the session's \<open>dispatched\<close> flag is set and
  \<open>kill()\<close> otherwise, then sets the session's \<open>app\<close> to \<open>None\<close> and the active pointer
  to \<open>-1\<close>, whether or not the session was the active one.
\<close>

theorem quit_live_session:
  "(let s = run cs (init_state images) in
      apps s k = Some entry \<and> s_app entry = Some a \<longrightarrow>
      quit (Some k) s =
        (Inr (),
         (call_backend (if s_dispatched entry then Quit_call a else Kill_call a) s)
           \<lparr>apps := (apps s)(k \<mapsto> entry\<lparr>s_app := None\<rparr>), active_app_instance := - 1\<rparr>))"
proof -
  define s where "s = run cs (init_state images)"
  have ok: "registry_ok s"
    unfolding s_def by (intro run_ok registry_ok_init)
  have "quit (Some k) s =
      (Inr (),
       (call_backend (if s_dispatched entry then Quit_call a else Kill_call a) s)
         \<lparr>apps := (apps s)(k \<mapsto> entry\<lparr>s_app := None\<rparr>), active_app_instance := - 1\<rparr>)"
    if "apps s k = Some entry" and "s_app entry = Some a"
  proof -
    from ok that(1) have "s_id entry = k" by (simp add: registry_ok_def)
    with that show ?thesis by (simp add: quit_def get_app_def Let_def)
  qed
  then show ?thesis unfolding Let_def s_def [symmetric] by blast
qed

theorem quit_live_session_witness:
  "map_option s_app (apps (run sample_history (init_state False)) 2) =
     Some (Some (Started ''notepad.exe''))
   \<and> active_app_instance (run sample_history (init_state False)) = 3
   \<and> fst (quit (Some 2) (run sample_history (init_state False))) = Inr ()
   \<and> trace (snd (quit (Some 2) (run sample_history (init_state False)))) =
       trace (run sample_history (init_state False)) @ [Kill_call (Started ''notepad.exe'')]
   \<and> map_option s_app (apps (snd (quit (Some 2) (run sample_history (init_state False)))) 2) =
       Some None
   \<and> active_app_instance (snd (quit (Some 2) (run sample_history (init_state False)))) = - 1"
proof -
  obtain entry where e: "apps (run sample_history (init_state False)) 2 = Some entry"
    and a: "s_app entry = Some (Started ''notepad.exe'')" and d: "\<not> s_dispatched entry"
  proof -
    have "case apps (run sample_history (init_state False)) 2 of
            None \<Rightarrow> False
          | Some entry \<Rightarrow> s_app entry = Some (Started ''notepad.exe'') \<and> \<not> s_dispatched entry"
      by code_simp
    then show ?thesis using that by (auto split: option.splits)
  qed
  have act: "active_app_instance (run sample_history (init_state False)) = 3"
    by code_simp
  show ?thesis
    using quit_live_session [of sample_history False 2 entry "Started ''notepad.exe''"] e a d act
    by (simp add: Let_def)
qed

text \<open>
  The claim as stated fails for a registered id whose session was quit before: its
  \<open>app\<close> is \<open>None\<close>, so \<open>quit\<close> raises \<open>AttributeError\<close>; no second \<open>Quit()\<close> is made and
  the active pointer stays on session 2.
\<close>

theorem quit_closed_session_raises:
  "map_option s_id (apps (run closed_session_history (init_state False)) 1) = Some 1
   \<and> fst (quit (Some 1) (run closed_session_history (init_state False))) = Inl AttributeError
   \<and> active_app_instance (snd (quit (Some 1) (run closed_session_history (init_state False)))) = 2
   \<and> trace (snd (quit (Some 1) (run closed_session_history (init_state False)))) =
       [Quit_call (Dispatched ''Excel'')]"
  by code_simp

subsection \<open>Click at a locator\<close>

lemma find_element_loop_matching:
  "fst (find_element_loop elements locator criteria matching locators) =
   matching @ filter (\<lambda>element. is_element_matching element locator criteria) elements"
  by (induction elements arbitrary: matching locators) (simp_all add: Let_def)

lemma find_element_matching:
  "fst (find_element locator criteria s) =
   filter (\<lambda>element. is_element_matching element locator criteria) (get_window_elements s)"
  by (simp add: find_element_def find_element_loop_matching)

lemma open_dialog_current:
  assumes "apps s (active_app_instance s) \<noteq> None"
  shows "\<exists>s1. open_dialog desk (windowtitle s) False s = (Inr (), s1)
    \<and> dlg s1 = Some (desk (windowtitle s)) \<and> trace s1 = trace s
    \<and> images_dir_exists s1 = images_dir_exists s"
  using assms
  by (auto simp: open_dialog_def connect_by_handle_def Let_def split: option.splits)

lemma mouse_calls_call_backend:
  "mouse_calls (call_backend ev s) = mouse_calls s @ (if is_mouse_call ev then [ev] else [])"
  by (simp add: mouse_calls_def)

lemma is_mouse_call_click_event [simp]: "is_mouse_call (click_event ctype x y)"
  by (simp add: click_event_def)

lemma click_type_clicks:
  "0 \<le> x \<Longrightarrow> 0 \<le> y \<Longrightarrow> ctype \<in> {''click'', ''double'', ''right''} \<Longrightarrow>
   click_type (Some x) (Some y) ctype s = (Inr (), call_backend (click_event ctype x y) s)"
  by (auto simp: click_type_def invalid_coordinates_def click_event_def)

lemma screenshot_element_center:
  assumes "get_element_center element = Inr c" and "\<not> images_dir_exists s"
  shows "\<exists>region. screenshot_element element s =
    (Inr (), call_backend (Take_screenshot region) (s\<lparr>images_dir_exists := True\<rparr>))"
  using assms
  by (auto simp: screenshot_element_def get_element_center_def split: option.splits sum.splits)

text \<open>
  Claim C1, as the code has it. Let a window be attached and the active pointer be a
  registered session. When exactly one element of the current window matches the
  locator, its rectangle gives the center \<open>(x, y)\<close>, both \<open>x + off_x\<close> and \<open>y + off_y\<close>
  are non-negative, the click type is one of \<open>click\<close>, \<open>double\<close>, \<open>right\<close>, and a
  requested screenshot can be stored, \<open>mouse_click_locator\<close> performs exactly one backend
  click, of that type at \<open>(x + off_x, y + off_y)\<close>, and returns \<open>True\<close>. When no element or
  more than one element matches, it performs no backend click and returns \<open>False\<close>,
  without raising.
\<close>

theorem mouse_click_locator_cases:
  assumes "dlg s \<noteq> None" and "apps s (active_app_instance s) \<noteq> None"
  shows "(window_matches desk locator s = [element]
          \<and> get_element_center element = Inr (x, y)
          \<and> 0 \<le> x + off_x \<and> 0 \<le> y + off_y
          \<and> ctype \<in> {''click'', ''double'', ''right''}
          \<and> (screenshot \<longrightarrow> \<not> images_dir_exists s) \<longrightarrow>
          fst (mouse_click_locator desk (Some locator) off_x off_y ctype screenshot s) = Inr True
          \<and> mouse_calls (snd (mouse_click_locator desk (Some locator) off_x off_y ctype screenshot s)) =
              mouse_calls s @ [click_event ctype (x + off_x) (y + off_y)])
    \<and> (length (window_matches desk locator s) \<noteq> 1 \<longrightarrow>
          fst (mouse_click_locator desk (Some locator) off_x off_y ctype screenshot s) = Inr False
          \<and> mouse_calls (snd (mouse_click_locator desk (Some locator) off_x off_y ctype screenshot s)) =
              mouse_calls s)"
proof -
  define s0 where "s0 = call_backend Dlg_wait s"
  have "apps s0 (active_app_instance s0) \<noteq> None"
    using assms(2) by (simp add: s0_def)
  from open_dialog_current [OF this, of desk] obtain s1 where
    od: "open_dialog desk (windowtitle s) False s0 = (Inr (), s1)"
    and d1: "dlg s1 = Some (desk (windowtitle s))"
    and t1: "trace s1 = trace s @ [Dlg_wait]"
    and i1: "images_dir_exists s1 = images_dir_exists s"
    by (auto simp: s0_def)
  have m1: "mouse_calls s1 = mouse_calls s"
    by (simp add: mouse_calls_def t1)
  define criteria where "criteria = fst (determine_search_criteria locator)"
  define val where "val = snd (determine_search_criteria locator)"
  have dsc: "determine_search_criteria locator = (criteria, val)"
    by (simp add: criteria_def val_def)
  obtain locators where fe: "find_element val criteria s1 = (window_matches desk locator s, locators)"
    using find_element_matching [of val criteria s1]
    by (cases "find_element val criteria s1")
       (simp add: window_matches_def get_window_elements_def d1 criteria_def val_def)
  obtain d0 where d0: "dlg s = Some d0"
    using assms(1) by auto
  have start: "mouse_click_locator desk (Some locator) off_x off_y ctype screenshot s =
      (case window_matches desk locator s of
         [] \<Rightarrow> (Inr False, s1)
       | [element] \<Rightarrow>
           (case (if screenshot then screenshot_element element s1 else (Inr (), s1)) of
              (Inl e, s2) \<Rightarrow> (Inl e, s2)
            | (Inr u, s2) \<Rightarrow>
                (case get_element_center element of
                   Inl e \<Rightarrow> (Inl e, s2)
                 | Inr (x, y) \<Rightarrow>
                     (case click_type (Some (x + off_x)) (Some (y + off_y)) ctype s2 of
                        (Inl e, s3) \<Rightarrow> (Inl e, s3)
                      | (Inr u, s3) \<Rightarrow> (Inr True, s3))))
       | _ \<Rightarrow> (Inr False, s1))"
    using od by (simp add: mouse_click_locator_def d0 s0_def dsc fe)
  have one: "fst (mouse_click_locator desk (Some locator) off_x off_y ctype screenshot s) = Inr True
      \<and> mouse_calls (snd (mouse_click_locator desk (Some locator) off_x off_y ctype screenshot s)) =
          mouse_calls s @ [click_event ctype (x + off_x) (y + off_y)]"
    if w: "window_matches desk locator s = [element]"
      and c: "get_element_center element = Inr (x, y)"
      and nn: "0 \<le> x + off_x" "0 \<le> y + off_y"
      and ct: "ctype \<in> {''click'', ''double'', ''right''}"
      and sc: "screenshot \<longrightarrow> \<not> images_dir_exists s"
  proof (cases screenshot)
    case False
    with start w c click_type_clicks [OF nn ct, of s1] m1 show ?thesis
      by (simp add: mouse_calls_call_backend)
  next
    case True
    with sc i1 have "\<not> images_dir_exists s1" by simp
    from screenshot_element_center [OF c this] obtain region where
      "screenshot_element element s1 =
        (Inr (), call_backend (Take_screenshot region) (s1\<lparr>images_dir_exists := True\<rparr>))"
      by blast
    with True start w c m1
      click_type_clicks [OF nn ct,
        of "call_backend (Take_screenshot region) (s1\<lparr>images_dir_exists := True\<rparr>)"]
    show ?thesis
      by (simp add: mouse_calls_call_backend mouse_calls_def)
  qed
  have other: "fst (mouse_click_locator desk (Some locator) off_x off_y ctype screenshot s) = Inr False
      \<and> mouse_calls (snd (mouse_click_locator desk (Some locator) off_x off_y ctype screenshot s)) =
          mouse_calls s"
    if "length (window_matches desk locator s) \<noteq> 1"
  proof (cases "window_matches desk locator s")
    case Nil
    with start m1 show ?thesis by simp
  next
    case (Cons e1 rest)
    with that obtain e2 rest2 where "rest = e2 # rest2" by (cases rest) auto
    with Cons start m1 show ?thesis by simp
  qed
  from one other show ?thesis by blast
qed

lemma sample_session_attached:
  "dlg sample_session \<noteq> None"
  "apps sample_session (active_app_instance sample_session) \<noteq> None"
  "mouse_calls sample_session = []"
proof -
  have "case dlg sample_session of None \<Rightarrow> False | Some d \<Rightarrow> True"
    by code_simp
  then show "dlg sample_session \<noteq> None" by (auto split: option.splits)
  have "case apps sample_session (active_app_instance sample_session) of
          None \<Rightarrow> False | Some e \<Rightarrow> True"
    by code_simp
  then show "apps sample_session (active_app_instance sample_session) \<noteq> None"
    by (auto split: option.splits)
  show "mouse_calls sample_session = []" by code_simp
qed

lemma sample_matches:
  "window_matches sample_desktop ''name:OK'' sample_session = [ok_button]"
  "window_matches sample_desktop ''name:Nope'' sample_session = []"
  "window_matches sample_desktop ''type:Button'' sample_session = [ok_button, cancel_button]"
  by (simp_all add: window_matches_def determine_search_criteria_def startswith_def py_split_def
      join_empty_def slice_from_1_def sample_desktop_def is_element_matching_field
      ok_button_def cancel_button_def)

theorem mouse_click_locator_cases_witness:
  "fst (mouse_click_locator sample_desktop (Some ''name:OK'') 5 (- 20) ''click'' False
          sample_session) = Inr True
   \<and> mouse_calls (snd (mouse_click_locator sample_desktop (Some ''name:OK'') 5 (- 20) ''click''
          False sample_session)) = [Mouse_click 65 100]
   \<and> fst (mouse_click_locator sample_desktop (Some ''name:Nope'') 0 0 ''click'' False
          sample_session) = Inr False
   \<and> mouse_calls (snd (mouse_click_locator sample_desktop (Some ''name:Nope'') 0 0 ''click''
          False sample_session)) = []
   \<and> fst (mouse_click_locator sample_desktop (Some ''type:Button'') 0 0 ''click'' False
          sample_session) = Inr False
   \<and> mouse_calls (snd (mouse_click_locator sample_desktop (Some ''type:Button'') 0 0 ''click''
          False sample_session)) = []"
proof -
  have c: "get_element_center ok_button = Inr (60, 120)"
    by code_simp
  show ?thesis
    using
      mouse_click_locator_cases [OF sample_session_attached(1,2), of sample_desktop "''name:OK''"
        ok_button 60 120 5 "- 20" "''click''" False]
      mouse_click_locator_cases [OF sample_session_attached(1,2), of sample_desktop "''name:Nope''"
        ok_button 60 120 0 0 "''click''" False]
      mouse_click_locator_cases [OF sample_session_attached(1,2), of sample_desktop "''type:Button''"
        ok_button 60 120 0 0 "''click''" False]
    by (simp add: sample_matches sample_session_attached(3) c click_event_def)
qed

text \<open>
  The claim as stated fails where the offsets move the click to a negative coordinate:
  with exactly one element matching \<open>name:OK\<close> and \<open>off_x = -100\<close>, \<open>click_type\<close> raises
  its \<open>ValueError\<close>; there is no backend click and no \<open>True\<close>.
\<close>

theorem mouse_click_locator_negative_offset:
  "length (window_matches sample_desktop ''name:OK'' sample_session) = 1
   \<and> fst (mouse_click_locator sample_desktop (Some ''name:OK'') (- 100) 0 ''click'' False
          sample_session) = Inl cant_click
   \<and> mouse_calls (snd (mouse_click_locator sample_desktop (Some ''name:OK'') (- 100) 0 ''click''
          False sample_session)) = []"
  by code_simp

end
